theory Spec2Isabelle
  imports Complex_Main "HOL-Library.Word" "HOL-Library.Multiset" "HOL-Library.AList"
begin

section \<open>Question selection and anti-repetition engine (question-database.ts)\<close>

text \<open>
  A shallow embedding of the class \<open>QuestionDatabase\<close>. The mutable fields of the
  singleton are a record that every operation takes and returns; the two sources of
  randomness and the clock are explicit inputs.
\<close>

subsection \<open>Data model\<close>

datatype difficulty = Easy | Medium | Hard

text \<open>
  The interface \<open>Question\<close> of shared/types/api.ts, with the fields the database writes.
  \<open>correct\<close> is a JavaScript number; every corpus entry holds an integer, so it is an
  \<open>int\<close> (\<open>indexOf\<close> can make it \<open>-1\<close>). \<open>originalOrder\<close> is the flag that
  \<open>shuffleQuestionOptions\<close> adds; \<open>None\<close> is an absent property.
\<close>

record Question =
  question :: string
  options :: "string list"
  correct :: int
  difficulty :: difficulty
  topic :: string
  source :: "string option"
  originalOrder :: "bool option"

text \<open>
  JavaScript compares objects by reference (\<open>Array.prototype.includes\<close>). An object of a
  realm's question array is therefore its position in that array together with its
  contents: two entries with equal contents remain two objects. The position is kept on
  the objects that \<open>shuffleQuestionOptions\<close> builds from them, as a record of which corpus
  entry each returned question comes from.
\<close>

type_synonym qobj = "nat \<times> Question"

definition objects :: "Question list \<Rightarrow> qobj list" where
  "objects qs = zip [0..<length qs] qs"

text \<open>
  The environment of one call. \<open>Math.random()\<close> returns a float in \<open>[0, 1)\<close> and the
  code only ever uses \<open>Math.floor(Math.random() * m)\<close>, an index below \<open>m\<close>. The
  \<open>k\<close>-th call of \<open>Math.random\<close> is the natural number \<open>mathRandom env k\<close>, read modulo
  \<open>m\<close>: every index below \<open>m\<close> can be drawn and no other. \<open>seededRandom\<close> is the
  closure of the same name (\<open>x = sin x * 10000\<close>, fractional part): a floating-point
  sequence determined by the seed, taken here as a function of the seed and the number
  of the draw. \<open>dateNow\<close> is \<open>Date.now()\<close>.
\<close>

record env =
  mathRandom :: "nat \<Rightarrow> nat"
  seededRandom :: "int \<Rightarrow> nat \<Rightarrow> nat"
  dateNow :: int

definition randomIndex :: "nat \<Rightarrow> nat \<Rightarrow> nat" where
  "randomIndex r m = r mod m"

subsection \<open>Array primitives\<close>

text \<open>The destructuring swap \<open>[a[i], a[j]] = [a[j], a[i]]\<close>.\<close>

definition swap :: "nat \<Rightarrow> nat \<Rightarrow> 'a list \<Rightarrow> 'a list" where
  "swap i j xs = xs[i := xs ! j, j := xs ! i]"

text \<open>
  \<open>arr.slice(0, end)\<close>: a negative \<open>end\<close> counts from the end of the array, and the
  result is clamped to the array.
\<close>

definition sliceTo :: "'a list \<Rightarrow> int \<Rightarrow> 'a list" where
  "sliceTo xs e =
     (let len = int (length xs);
          k = (if e < 0 then max (len + e) 0 else min e len)
      in take (nat k) xs)"

text \<open>\<open>arr.slice(start)\<close>, with the same treatment of a negative \<open>start\<close>.\<close>

definition sliceFrom :: "'a list \<Rightarrow> int \<Rightarrow> 'a list" where
  "sliceFrom xs s =
     (let len = int (length xs);
          k = (if s < 0 then max (len + s) 0 else min s len)
      in drop (nat k) xs)"

text \<open>\<open>arr.indexOf(x)\<close>: the first position holding \<open>x\<close>, or \<open>-1\<close>.\<close>

fun indexOf :: "'a list \<Rightarrow> 'a \<Rightarrow> int" where
  "indexOf [] x = -1"
| "indexOf (y # ys) x =
     (if y = x then 0 else (let r = indexOf ys x in if r < 0 then -1 else r + 1))"

text \<open>\<open>arr[i]\<close> for a number \<open>i\<close>: \<open>undefined\<close> (here \<open>None\<close>) out of range.\<close>

definition elemAt :: "'a list \<Rightarrow> int \<Rightarrow> 'a option" where
  "elemAt xs i = (if 0 \<le> i \<and> i < int (length xs) then Some (xs ! nat i) else None)"

subsection \<open>Shuffling\<close>

text \<open>
  The loop of \<open>shuffleArray\<close>: \<open>for (i = length - 1; i > 0; i--)\<close>, one draw per round.
  The second component is the number of draws taken from \<open>Math.random\<close> so far.
\<close>

fun fisherYates :: "(nat \<Rightarrow> nat) \<Rightarrow> nat \<Rightarrow> nat \<Rightarrow> 'a list \<Rightarrow> 'a list \<times> nat" where
  "fisherYates rnd pos 0 xs = (xs, pos)"
| "fisherYates rnd pos (Suc i) xs =
     (let j = randomIndex (rnd pos) (Suc i + 1)
      in fisherYates rnd (Suc pos) i (swap (Suc i) j xs))"

definition shuffleArray :: "env \<Rightarrow> nat \<Rightarrow> 'a list \<Rightarrow> 'a list \<times> nat" where
  "shuffleArray e pos array = fisherYates (mathRandom e) pos (length array - 1) array"

text \<open>
  \<open>hashCode\<close>: \<open>hash = ((hash << 5) - hash) + char; hash = hash & hash\<close> keeps a 32-bit
  signed integer, so the loop is arithmetic on 32-bit words; the result is its absolute
  value. Characters are the bytes of the model's strings.
\<close>

fun hashLoop :: "32 word \<Rightarrow> string \<Rightarrow> 32 word" where
  "hashLoop hash [] = hash"
| "hashLoop hash (c # cs) = hashLoop ((push_bit 5 hash - hash) + of_nat (of_char c)) cs"

definition hashCode :: "string \<Rightarrow> int" where
  "hashCode str = \<bar>sint (hashLoop 0 str)\<bar>"

text \<open>
  The second loop of \<open>advancedShuffle\<close>: \<open>for (i = 0; i < length; i++)\<close> with
  \<open>j = Math.floor(Math.random() * length)\<close>.
\<close>

function mixPass :: "(nat \<Rightarrow> nat) \<Rightarrow> nat \<Rightarrow> nat \<Rightarrow> 'a list \<Rightarrow> 'a list \<times> nat" where
  "mixPass rnd pos i xs =
     (if i < length xs
      then mixPass rnd (Suc pos) (Suc i) (swap i (randomIndex (rnd pos) (length xs)) xs)
      else (xs, pos))"
  by pat_completeness auto
termination
  by (relation "measure (\<lambda>(rnd, pos, i, xs). length xs - i)") (auto simp: swap_def)

declare mixPass.simps [simp del]

text \<open>
  \<open>advancedShuffle\<close>: the seed is the hash of the session identifier, or the clock when
  the identifier is absent or empty (an empty string is falsy); a Fisher-Yates pass
  driven by the seeded generator, then the pass driven by \<open>Math.random\<close>.
\<close>

definition advancedShuffle :: "env \<Rightarrow> nat \<Rightarrow> 'a list \<Rightarrow> string option \<Rightarrow> 'a list \<times> nat" where
  "advancedShuffle e pos array sessionId =
     (let seed = (case sessionId of
                    None \<Rightarrow> dateNow e
                  | Some s \<Rightarrow> if s = [] then dateNow e else hashCode s);
          random = seededRandom e seed;
          shuffled = fst (fisherYates random 0 (length array - 1) array)
      in mixPass (mathRandom e) pos 0 shuffled)"

subsection \<open>Strings\<close>

text \<open>
  \<open>toLowerCase\<close> on the ASCII letters; other bytes are left as they are (realm names
  and topics of the corpus are ASCII).
\<close>

definition toLowerChar :: "char \<Rightarrow> char" where
  "toLowerChar c =
     (let n = (of_char c :: nat)
      in if 65 \<le> n \<and> n \<le> 90 then ''abcdefghijklmnopqrstuvwxyz'' ! (n - 65) else c)"

definition toLowerCase :: "string \<Rightarrow> string" where
  "toLowerCase s = map toLowerChar s"

text \<open>\<open>realm.replace(/^r\//, '').toLowerCase()\<close>\<close>

definition normalizeRealmName :: "string \<Rightarrow> string" where
  "normalizeRealmName realm =
     toLowerCase (case realm of
                    CHR ''r'' # CHR ''/'' # rest \<Rightarrow> rest
                  | _ \<Rightarrow> realm)"

text \<open>The decimal digits of an integer, as a template literal prints a number.\<close>

fun natToString :: "nat \<Rightarrow> string" where
  "natToString n =
     (if n < 10 then [''0123456789'' ! n]
      else natToString (n div 10) @ [''0123456789'' ! (n mod 10)])"

declare natToString.simps [simp del]

definition numberToString :: "int \<Rightarrow> string" where
  "numberToString i = (if i < 0 then CHR ''-'' # natToString (nat (- i)) else natToString (nat i))"

text \<open>\<open>getQuestionId\<close>: the template literal \<open>`${question.question}-${question.correct}`\<close>.\<close>

definition getQuestionId :: "Question \<Rightarrow> string" where
  "getQuestionId q = question q @ ''-'' @ numberToString (correct q)"

text \<open>
  \<open>getCurrentRealm\<close>: the lower-cased topic of the first question when there is one and
  its topic is a non-empty string, else \<open>general\<close>.
\<close>

definition getCurrentRealm :: "Question list \<Rightarrow> string" where
  "getCurrentRealm questions =
     (case questions of
        [] \<Rightarrow> ''general''
      | q # _ \<Rightarrow> if topic q \<noteq> [] then toLowerCase (topic q) else ''general'')"

subsection \<open>State of the database\<close>

text \<open>
  A JavaScript \<open>Map\<close> is an association list in insertion order (\<open>set\<close> is
  \<open>AList.update\<close>, \<open>delete\<close> is \<open>AList.delete\<close>), and a \<open>Set\<close> of strings is the list
  of its members in insertion order.
\<close>

record db =
  questionBank :: "(string \<times> Question list) list"
  recentlyUsedQuestions :: "(string \<times> string list) list"

definition questionCooldownPeriod :: int where
  "questionCooldownPeriod = 10"

text \<open>\<open>Set.prototype.add\<close> and \<open>new Set(array)\<close>.\<close>

definition setAdd :: "'a list \<Rightarrow> 'a \<Rightarrow> 'a list" where
  "setAdd s x = (if x \<in> set s then s else s @ [x])"

definition newSet :: "'a list \<Rightarrow> 'a list" where
  "newSet xs = foldl setAdd [] xs"

subsection \<open>Cooldown tracking\<close>

definition filterRecentlyUsedQuestions :: "db \<Rightarrow> qobj list \<Rightarrow> string \<Rightarrow> qobj list \<times> db" where
  "filterRecentlyUsedQuestions d questions realm =
     (let recentlyUsed = (case map_of (recentlyUsedQuestions d) realm of
                            None \<Rightarrow> []
                          | Some s \<Rightarrow> s);
          availableQuestions =
            filter (\<lambda>q. getQuestionId (snd q) \<notin> set recentlyUsed) questions
      in if length availableQuestions < 6
         then (questions,
               d\<lparr>recentlyUsedQuestions := AList.update realm [] (recentlyUsedQuestions d)\<rparr>)
         else (availableQuestions, d))"

definition trackRecentlyUsedQuestions :: "db \<Rightarrow> Question list \<Rightarrow> string \<Rightarrow> db" where
  "trackRecentlyUsedQuestions d questions realm =
     (let m0 = recentlyUsedQuestions d;
          m1 = (if map_of m0 realm = None then AList.update realm [] m0 else m0);
          old = (case map_of m1 realm of None \<Rightarrow> [] | Some s \<Rightarrow> s);
          recentlyUsed = foldl setAdd old (map getQuestionId questions);
          m2 = AList.update realm recentlyUsed m1
      in if int (length recentlyUsed) > questionCooldownPeriod * 6
         then (let questionsArray = recentlyUsed;
                   toKeep = sliceFrom questionsArray (- questionCooldownPeriod * 3)
               in d\<lparr>recentlyUsedQuestions := AList.update realm (newSet toKeep) m2\<rparr>)
         else d\<lparr>recentlyUsedQuestions := m2\<rparr>)"

text \<open>
  \<open>clearRecentlyUsedQuestions(realm?)\<close>: an absent or empty realm clears the whole map
  (an empty string is falsy).
\<close>

definition clearRecentlyUsedQuestions :: "db \<Rightarrow> string option \<Rightarrow> db" where
  "clearRecentlyUsedQuestions d realm =
     (case realm of
        None \<Rightarrow> d\<lparr>recentlyUsedQuestions := []\<rparr>
      | Some r \<Rightarrow>
          if r \<noteq> [] then d\<lparr>recentlyUsedQuestions := AList.delete r (recentlyUsedQuestions d)\<rparr>
          else d\<lparr>recentlyUsedQuestions := []\<rparr>)"

subsection \<open>Balanced selection\<close>

text \<open>
  \<open>Math.ceil(count * 0.4)\<close> for an integer \<open>count\<close> (the product in floating point
  is the exact integer when \<open>count\<close> is a multiple of five, and is at least \<open>0.2\<close> away
  from an integer otherwise, so the ceiling is that of the exact product).
\<close>

definition ceil04 :: "int \<Rightarrow> int" where
  "ceil04 cnt = \<lceil>(of_int cnt :: rat) * (4 / 10)\<rceil>"

definition easyCount :: "int \<Rightarrow> int" where
  "easyCount cnt = ceil04 cnt"

definition mediumCount :: "int \<Rightarrow> int" where
  "mediumCount cnt = ceil04 cnt"

definition hardCount :: "int \<Rightarrow> int" where
  "hardCount cnt = cnt - easyCount cnt - mediumCount cnt"

text \<open>
  One tier of the tier-targeted phase:
  \<open>if (tier.length > 0) selected.push(...shuffleArray(tier).slice(0, Math.min(target, tier.length)))\<close>.
  The result is what is pushed.
\<close>

definition pickFromTier :: "env \<Rightarrow> nat \<Rightarrow> 'a list \<Rightarrow> int \<Rightarrow> 'a list \<times> nat" where
  "pickFromTier e pos tier target =
     (if length tier > 0
      then (let (shuffled, pos') = shuffleArray e pos tier
            in (sliceTo shuffled (min target (int (length tier))), pos'))
      else ([], pos))"

text \<open>
  The tier-targeted phase of \<open>getBalancedQuestionMix\<close>: the three buckets, the three
  targets and the three pushes, in the order of the source. The result keeps the picks of
  the three tiers apart; \<open>selectedQuestions\<close> is their concatenation.
\<close>

definition tierPhase ::
  "env \<Rightarrow> nat \<Rightarrow> qobj list \<Rightarrow> int \<Rightarrow> (qobj list \<times> qobj list \<times> qobj list) \<times> nat" where
  "tierPhase e pos availableQuestions cnt =
     (let easyQuestions = filter (\<lambda>q. difficulty (snd q) = Easy) availableQuestions;
          mediumQuestions = filter (\<lambda>q. difficulty (snd q) = Medium) availableQuestions;
          hardQuestions = filter (\<lambda>q. difficulty (snd q) = Hard) availableQuestions;
          (easyPicks, pos1) = pickFromTier e pos easyQuestions (easyCount cnt);
          (mediumPicks, pos2) = pickFromTier e pos1 mediumQuestions (mediumCount cnt);
          (hardPicks, pos3) = pickFromTier e pos2 hardQuestions (hardCount cnt)
      in ((easyPicks, mediumPicks, hardPicks), pos3))"

text \<open>
  The backfill: \<open>if (selectedQuestions.length < count)\<close>, the candidates that are not
  yet selected (\<open>includes\<close> compares objects) are shuffled and a prefix is pushed.
\<close>

definition backfill ::
  "env \<Rightarrow> nat \<Rightarrow> qobj list \<Rightarrow> qobj list \<Rightarrow> int \<Rightarrow> qobj list \<times> nat" where
  "backfill e pos availableQuestions selectedQuestions cnt =
     (if int (length selectedQuestions) < cnt
      then (let (remaining, pos') =
                  shuffleArray e pos
                    (filter (\<lambda>q. q \<notin> set selectedQuestions) availableQuestions)
            in (selectedQuestions
                  @ sliceTo remaining (cnt - int (length selectedQuestions)), pos'))
      else (selectedQuestions, pos))"

text \<open>
  \<open>getBalancedQuestionMix\<close> (its parameter \<open>sessionId\<close> is never read). The result is
  the returned array, the database after the cooldown update, and the position in the
  sequence of \<open>Math.random\<close> draws. The cooldown update sees everything selected, the
  caller only the first \<open>count\<close>.
\<close>

definition getBalancedQuestionMix ::
  "env \<Rightarrow> db \<Rightarrow> nat \<Rightarrow> qobj list \<Rightarrow> int \<Rightarrow> qobj list \<times> db \<times> nat" where
  "getBalancedQuestionMix e d pos questions cnt =
     (let realm = getCurrentRealm (map snd questions);
          (availableQuestions, d1) = filterRecentlyUsedQuestions d questions realm;
          ((easyPicks, mediumPicks, hardPicks), pos3) = tierPhase e pos availableQuestions cnt;
          (selectedQuestions, pos4) =
            backfill e pos3 availableQuestions (easyPicks @ mediumPicks @ hardPicks) cnt;
          d2 = trackRecentlyUsedQuestions d1 (map snd selectedQuestions) realm
      in (sliceTo selectedQuestions cnt, d2, pos4))"

subsection \<open>Option shuffling\<close>

text \<open>The callback of \<open>questions.map\<close> in \<open>shuffleQuestionOptions\<close>.\<close>

definition shuffleOptionsOf :: "env \<Rightarrow> nat \<Rightarrow> qobj \<Rightarrow> qobj \<times> nat" where
  "shuffleOptionsOf e pos obj =
     (let q = snd obj;
          originalOptions = options q;
          correctAnswer = elemAt originalOptions (correct q);
          (shuffledOptions, pos') = shuffleArray e pos originalOptions;
          newCorrectIndex = (case correctAnswer of
                               None \<Rightarrow> -1
                             | Some a \<Rightarrow> indexOf shuffledOptions a)
      in ((fst obj, q\<lparr>options := shuffledOptions, correct := newCorrectIndex,
                      originalOrder := Some False\<rparr>), pos'))"

fun shuffleQuestionOptions :: "env \<Rightarrow> nat \<Rightarrow> qobj list \<Rightarrow> qobj list \<times> nat" where
  "shuffleQuestionOptions e pos [] = ([], pos)"
| "shuffleQuestionOptions e pos (q # qs) =
     (let (q', pos1) = shuffleOptionsOf e pos q;
          (qs', pos2) = shuffleQuestionOptions e pos1 qs
      in (q' # qs', pos2))"

subsection \<open>The corpus\<close>

text \<open>
  The question literals of question-database.ts and comprehensive-questions.ts, one
  constant per array of the source, in the order of the source. Every literal sets
  \<open>question\<close>, \<open>options\<close>, \<open>correct\<close>, \<open>difficulty\<close>, \<open>topic\<close> and \<open>source\<close>.
\<close>

definition entry ::
  "string \<Rightarrow> string list \<Rightarrow> int \<Rightarrow> difficulty \<Rightarrow> string \<Rightarrow> string \<Rightarrow> Question" where
  "entry q os c dif t s =
     \<lparr>question = q, options = os, correct = c, difficulty = dif, topic = t,
      source = Some s, originalOrder = None\<rparr>"

definition getBasicFallbackQuestions :: "Question list" where
  "getBasicFallbackQuestions =
    [entry ''What does 'OP' stand for on Reddit?''
       [''Original Poster'', ''Online Person'', ''Open Post'', ''Other People'']
       0 Easy ''Reddit'' ''fallback'',
     entry ''What is the purpose of upvoting on Reddit?''
       [''To like a post'', ''To show agreement'', ''To increase visibility'', ''All of the above'']
       3 Easy ''Reddit'' ''fallback'',
     entry ''What is a subreddit?''
       [''A user profile'', ''A topic-specific community'', ''A type of post'', ''A Reddit feature'']
       1 Easy ''Reddit'' ''fallback'',
     entry ''What does 'karma' represent on Reddit?''
       [''Points from upvotes/downvotes'', ''Time spent on Reddit'', ''Number of posts'', ''Account age'']
       0 Easy ''Reddit'' ''fallback'',
     entry ''What is Reddit's slogan?''
       [''The Front Page of the Internet'', ''Where Communities Thrive'', ''Social News Aggregation'', ''The Voice of the Internet'']
       0 Easy ''Reddit'' ''fallback'',
     entry ''What does 'AMA' stand for?''
       [''Ask Me Anything'', ''Always Make Answers'', ''All My Answers'', ''Ask More Again'']
       0 Easy ''Reddit'' ''fallback'']"

definition COMPREHENSIVE_QUESTIONS_gaming :: "Question list" where
  "COMPREHENSIVE_QUESTIONS_gaming =
    [entry ''Which company developed the Super Mario series?''
       [''Sony'', ''Nintendo'', ''Microsoft'', ''Sega'']
       1 Easy ''Gaming'' ''fallback'',
     entry ''What is the highest-selling video game of all time?''
       [''Tetris'', ''Minecraft'', ''Grand Theft Auto V'', ''Fortnite'']
       1 Easy ''Gaming'' ''fallback'',
     entry ''Which gaming console was released first?''
       [''PlayStation'', ''Xbox'', ''Nintendo 64'', ''Sega Genesis'']
       3 Easy ''Gaming'' ''fallback'',
     entry ''What does 'RPG' stand for in gaming?''
       [''Real Player Game'', ''Role Playing Game'', ''Random Player Generator'', ''Rapid Play Gaming'']
       1 Easy ''Gaming'' ''fallback'',
     entry ''Which character is the mascot of Sonic the Hedgehog series?''
       [''Tails'', ''Knuckles'', ''Sonic'', ''Shadow'']
       2 Easy ''Gaming'' ''fallback'',
     entry ''What does 'FPS' stand for in gaming?''
       [''First Person Shooter'', ''Frames Per Second'', ''Fast Paced Strategy'', ''Both A and B'']
       3 Easy ''Gaming'' ''fallback'',
     entry ''Which game features the character Master Chief?''
       [''Call of Duty'', ''Halo'', ''Gears of War'', ''Destiny'']
       1 Easy ''Gaming'' ''fallback'',
     entry ''What is the main currency in World of Warcraft?''
       [''Silver'', ''Gold'', ''Copper'', ''Platinum'']
       1 Easy ''Gaming'' ''fallback'',
     entry ''Which company created the PlayStation?''
       [''Nintendo'', ''Microsoft'', ''Sony'', ''Sega'']
       2 Easy ''Gaming'' ''fallback'']"

definition COMPREHENSIVE_QUESTIONS_science :: "Question list" where
  "COMPREHENSIVE_QUESTIONS_science =
    [entry ''What is the chemical symbol for water?''
       [''H2O'', ''CO2'', ''NaCl'', ''O2'']
       0 Easy ''Science'' ''fallback'',
     entry ''How many bones are in the adult human body?''
       [''206'', ''208'', ''210'', ''204'']
       0 Easy ''Science'' ''fallback'',
     entry ''What planet is known as the Red Planet?''
       [''Venus'', ''Jupiter'', ''Mars'', ''Saturn'']
       2 Easy ''Science'' ''fallback'',
     entry ''What gas do plants absorb from the atmosphere during photosynthesis?''
       [''Oxygen'', ''Nitrogen'', ''Carbon Dioxide'', ''Hydrogen'']
       2 Easy ''Science'' ''fallback'',
     entry ''What is the speed of light in a vacuum?''
       [''300,000 km/s'', ''299,792,458 m/s'', ''186,000 miles/s'', ''All of the above'']
       3 Easy ''Science'' ''fallback'',
     entry ''What is the largest organ in the human body?''
       [''Brain'', ''Liver'', ''Skin'', ''Heart'']
       2 Easy ''Science'' ''fallback'',
     entry ''What is the chemical symbol for gold?''
       [''Go'', ''Gd'', ''Au'', ''Ag'']
       2 Easy ''Science'' ''fallback'',
     entry ''How many chambers does a human heart have?''
       [''2'', ''3'', ''4'', ''5'']
       2 Easy ''Science'' ''fallback'',
     entry ''What is the hardest natural substance on Earth?''
       [''Gold'', ''Iron'', ''Diamond'', ''Quartz'']
       2 Easy ''Science'' ''fallback'']"

definition COMPREHENSIVE_QUESTIONS_technology :: "Question list" where
  "COMPREHENSIVE_QUESTIONS_technology =
    [entry ''What does 'CPU' stand for?''
       [''Central Processing Unit'', ''Computer Personal Unit'', ''Central Program Unit'', ''Computer Processing Unit'']
       0 Easy ''Technology'' ''fallback'',
     entry ''Which company created the iPhone?''
       [''Google'', ''Samsung'', ''Apple'', ''Microsoft'']
       2 Easy ''Technology'' ''fallback'',
     entry ''What does 'WWW' stand for?''
       [''World Wide Web'', ''World Web Wide'', ''Wide World Web'', ''Web World Wide'']
       0 Easy ''Technology'' ''fallback'',
     entry ''Which programming language is known for its use in web development?''
       [''Python'', ''JavaScript'', ''C++'', ''Java'']
       1 Easy ''Technology'' ''fallback'',
     entry ''What does 'AI' stand for?''
       [''Automated Intelligence'', ''Artificial Intelligence'', ''Advanced Intelligence'', ''Algorithmic Intelligence'']
       1 Easy ''Technology'' ''fallback'']"

definition generateAdditionalGamingQuestions :: "Question list" where
  "generateAdditionalGamingQuestions =
    [entry ''What is the name of the main character in the Assassin's Creed series?''
       [''Ezio Auditore'', ''Altair Ibn-La'Ahad'', ''Varies by game'', ''Desmond Miles'']
       2 Medium ''Gaming'' ''fallback'',
     entry ''Which game engine powers Half-Life 2?''
       [''Unreal Engine'', ''Source Engine'', ''id Tech'', ''CryEngine'']
       1 Medium ''Gaming'' ''fallback'',
     entry ''What is the maximum level cap in World of Warcraft Classic?''
       [''50'', ''60'', ''70'', ''80'']
       1 Medium ''Gaming'' ''fallback'',
     entry ''Which game popularized the battle royale genre?''
       [''PUBG'', ''Fortnite'', ''Apex Legends'', ''H1Z1'']
       0 Medium ''Gaming'' ''fallback'',
     entry ''What year was the original Legend of Zelda released?''
       [''1985'', ''1986'', ''1987'', ''1988'']
       1 Medium ''Gaming'' ''fallback'']"

definition generateAdditionalScienceQuestions :: "Question list" where
  "generateAdditionalScienceQuestions =
    [entry ''What is the atomic number of carbon?''
       [''4'', ''6'', ''8'', ''12'']
       1 Medium ''Science'' ''fallback'',
     entry ''Which scientist developed the theory of evolution?''
       [''Isaac Newton'', ''Albert Einstein'', ''Charles Darwin'', ''Galileo Galilei'']
       2 Medium ''Science'' ''fallback'',
     entry ''What is the pH of pure water?''
       [''6'', ''7'', ''8'', ''9'']
       1 Medium ''Science'' ''fallback'',
     entry ''How many chromosomes do humans have?''
       [''44'', ''46'', ''48'', ''50'']
       1 Medium ''Science'' ''fallback'',
     entry ''What is the most abundant gas in the universe?''
       [''Oxygen'', ''Nitrogen'', ''Hydrogen'', ''Helium'']
       2 Medium ''Science'' ''fallback'']"

definition generateAdditionalTechnologyQuestions :: "Question list" where
  "generateAdditionalTechnologyQuestions =
    [entry ''What does 'API' stand for?''
       [''Application Programming Interface'', ''Advanced Programming Interface'', ''Automated Programming Interface'', ''Application Process Interface'']
       0 Medium ''Technology'' ''fallback'',
     entry ''Which company created the Git version control system?''
       [''Microsoft'', ''Google'', ''Linus Torvalds'', ''GitHub'']
       2 Medium ''Technology'' ''fallback'',
     entry ''What does 'SQL' stand for?''
       [''Structured Query Language'', ''Simple Query Language'', ''Standard Query Language'', ''System Query Language'']
       0 Medium ''Technology'' ''fallback'',
     entry ''What is the time complexity of binary search?''
       [''O(n)'', ''O(log n)'', (''O(n'' @ [CHR 0xC2, CHR 0xB2] @ '')''), ''O(1)'']
       1 Hard ''Technology'' ''fallback'',
     entry ''Which design pattern ensures a class has only one instance?''
       [''Factory'', ''Observer'', ''Singleton'', ''Strategy'']
       2 Hard ''Technology'' ''fallback'']"

definition getMoviesQuestions :: "Question list" where
  "getMoviesQuestions =
    [entry ''Who directed the movie 'Jaws'?''
       [''George Lucas'', ''Steven Spielberg'', ''Martin Scorsese'', ''Francis Ford Coppola'']
       1 Easy ''Movies'' ''fallback'',
     entry ''Which movie won the Academy Award for Best Picture in 2020?''
       [''1917'', ''Joker'', ''Parasite'', ''Once Upon a Time in Hollywood'']
       2 Easy ''Movies'' ''fallback'',
     entry ''What is the highest-grossing film of all time?''
       [''Avatar'', ''Avengers: Endgame'', ''Titanic'', ''Star Wars: The Force Awakens'']
       1 Easy ''Movies'' ''fallback'',
     entry ''Who played the character of Jack Sparrow in Pirates of the Caribbean?''
       [''Orlando Bloom'', ''Johnny Depp'', ''Geoffrey Rush'', ''Keira Knightley'']
       1 Easy ''Movies'' ''fallback'',
     entry ''Which animated movie features the song 'Let It Go'?''
       [''Moana'', ''Tangled'', ''Frozen'', ''The Little Mermaid'']
       2 Easy ''Movies'' ''fallback'']"

definition getAskRedditQuestions :: "Question list" where
  "getAskRedditQuestions =
    [entry ''What is the most common question type on r/AskReddit?''
       [''Personal experiences'', ''Hypothetical scenarios'', ''Advice requests'', ''All of the above'']
       3 Easy ''Reddit Culture'' ''fallback'',
     entry ''What does 'TL;DR' mean on Reddit?''
       [''Too Long; Didn't Read'', ''Too Late; Don't Reply'', ''Top Level; Direct Response'', ''Time Limit; Delete Reply'']
       0 Easy ''Reddit Culture'' ''fallback'',
     entry ''What is Reddit Gold?''
       [''A premium membership'', ''A type of award'', ''Virtual currency'', ''All of the above'']
       3 Easy ''Reddit Culture'' ''fallback'',
     entry ''What does 'AMA' stand for?''
       [''Ask Me Anything'', ''Always Make Answers'', ''All My Answers'', ''Ask More Again'']
       0 Easy ''Reddit Culture'' ''fallback'',
     entry ''What is the Reddit mascot called?''
       [''Snoo'', ''Reddy'', ''Alien'', ''Bob'']
       0 Easy ''Reddit Culture'' ''fallback'']"

definition getWorldNewsQuestions :: "Question list" where
  "getWorldNewsQuestions =
    [entry ''What is the capital of Australia?''
       [''Sydney'', ''Melbourne'', ''Canberra'', ''Perth'']
       2 Easy ''Geography'' ''fallback'',
     entry ''Which country has the largest population?''
       [''India'', ''China'', ''United States'', ''Indonesia'']
       1 Easy ''Geography'' ''fallback'',
     entry ''What is the smallest country in the world?''
       [''Monaco'', ''Vatican City'', ''San Marino'', ''Liechtenstein'']
       1 Easy ''Geography'' ''fallback'',
     entry ''Which continent is known as the 'Dark Continent'?''
       [''Asia'', ''South America'', ''Africa'', ''Australia'']
       2 Easy ''Geography'' ''fallback'',
     entry ''What is the longest river in the world?''
       [''Amazon River'', ''Nile River'', ''Mississippi River'', ''Yangtze River'']
       1 Easy ''Geography'' ''fallback'']"

definition getGeneralRedditQuestions :: "Question list" where
  "getGeneralRedditQuestions =
    [entry ''What does 'OP' stand for on Reddit?''
       [''Original Poster'', ''Online Person'', ''Open Post'', ''Other People'']
       0 Easy ''Reddit'' ''fallback'',
     entry ''What is the purpose of upvoting on Reddit?''
       [''To like a post'', ''To show agreement'', ''To increase visibility'', ''All of the above'']
       3 Easy ''Reddit'' ''fallback'',
     entry ''What is a subreddit?''
       [''A user profile'', ''A topic-specific community'', ''A type of post'', ''A Reddit feature'']
       1 Easy ''Reddit'' ''fallback'',
     entry ''What does 'karma' represent on Reddit?''
       [''Points from upvotes/downvotes'', ''Time spent on Reddit'', ''Number of posts'', ''Account age'']
       0 Easy ''Reddit'' ''fallback'',
     entry ''What is Reddit's slogan?''
       [''The Front Page of the Internet'', ''Where Communities Thrive'', ''Social News Aggregation'', ''The Voice of the Internet'']
       0 Easy ''Reddit'' ''fallback'']"

definition getProgrammingQuestions :: "Question list" where
  "getProgrammingQuestions =
    [entry ''Which programming language is known as the 'language of the web'?''
       [''Python'', ''JavaScript'', ''Java'', ''C++'']
       1 Easy ''Programming'' ''fallback'',
     entry ''What does 'HTML' stand for?''
       [''HyperText Markup Language'', ''High Tech Modern Language'', ''Home Tool Markup Language'', ''Hyperlink and Text Markup Language'']
       0 Easy ''Programming'' ''fallback'',
     entry ''Which symbol is used for comments in Python?''
       [''//'', ''/*'', ''#'', ''<!--'']
       2 Easy ''Programming'' ''fallback'',
     entry ''What is Git primarily used for?''
       [''Database management'', ''Version control'', ''Web hosting'', ''Code compilation'']
       1 Easy ''Programming'' ''fallback'',
     entry ''Which company developed the Java programming language?''
       [''Microsoft'', ''Apple'', ''Sun Microsystems'', ''Google'']
       2 Easy ''Programming'' ''fallback'']"

definition getHistoryQuestions :: "Question list" where
  "getHistoryQuestions =
    [entry ''In which year did World War II end?''
       [''1944'', ''1945'', ''1946'', ''1947'']
       1 Easy ''History'' ''fallback'',
     entry ''Who was the first person to walk on the moon?''
       [''Buzz Aldrin'', ''Neil Armstrong'', ''John Glenn'', ''Alan Shepard'']
       1 Easy ''History'' ''fallback'',
     entry ''Which ancient wonder of the world was located in Alexandria?''
       [''Hanging Gardens'', ''Lighthouse of Alexandria'', ''Colossus of Rhodes'', ''Temple of Artemis'']
       1 Easy ''History'' ''fallback'',
     entry ''Who painted the Mona Lisa?''
       [''Vincent van Gogh'', ''Pablo Picasso'', ''Leonardo da Vinci'', ''Michelangelo'']
       2 Easy ''History'' ''fallback'',
     entry ''Which empire was ruled by Julius Caesar?''
       [''Greek Empire'', ''Roman Empire'', ''Byzantine Empire'', ''Persian Empire'']
       1 Easy ''History'' ''fallback'']"

definition getSportsQuestions :: "Question list" where
  "getSportsQuestions =
    [entry ''How many players are on a basketball team on the court at one time?''
       [''4'', ''5'', ''6'', ''7'']
       1 Easy ''Sports'' ''fallback'',
     entry ''Which sport is known as 'America's Pastime'?''
       [''Football'', ''Basketball'', ''Baseball'', ''Hockey'']
       2 Easy ''Sports'' ''fallback'',
     entry ''How often are the Summer Olympic Games held?''
       [''Every 2 years'', ''Every 3 years'', ''Every 4 years'', ''Every 5 years'']
       2 Easy ''Sports'' ''fallback'',
     entry ''In which sport would you perform a slam dunk?''
       [''Volleyball'', ''Basketball'', ''Tennis'', ''Badminton'']
       1 Easy ''Sports'' ''fallback'',
     entry ''What is the maximum score possible in ten-pin bowling?''
       [''200'', ''250'', ''300'', ''350'']
       2 Easy ''Sports'' ''fallback'']"

definition generateDynamicGamingQuestions :: "Question list" where
  "generateDynamicGamingQuestions =
    [entry ''Which game series features the character Lara Croft?''
       [''Uncharted'', ''Tomb Raider'', ''Assassin's Creed'', ''Far Cry'']
       1 Easy ''Gaming'' ''dynamic'',
     entry ''What is the name of the main character in the Witcher series?''
       [''Geralt of Rivia'', ''Triss Merigold'', ''Yennefer'', ''Dandelion'']
       0 Medium ''Gaming'' ''dynamic'',
     entry ''Which game popularized the 'souls-like' genre?''
       [''Dark Souls'', ''Demon's Souls'', ''Bloodborne'', ''Sekiro'']
       1 Hard ''Gaming'' ''dynamic'',
     entry ''What does 'FPS' stand for in gaming?''
       [''First Person Shooter'', ''Frames Per Second'', ''Both A and B'', ''Fast Paced Strategy'']
       2 Medium ''Gaming'' ''dynamic'',
     entry ''Which company developed Minecraft?''
       [''Microsoft'', ''Mojang'', ''Notch'', ''Both B and C'']
       3 Medium ''Gaming'' ''dynamic'',
     entry ''What is the maximum level in Pokemon Red/Blue?''
       [''99'', ''100'', ''255'', ''No limit'']
       1 Medium ''Gaming'' ''dynamic'',
     entry ''Which game engine powers Genshin Impact?''
       [''Unity'', ''Unreal Engine'', ''Custom Engine'', ''CryEngine'']
       0 Hard ''Gaming'' ''dynamic'',
     entry ''What year was Steam launched?''
       [''2002'', ''2003'', ''2004'', ''2005'']
       1 Hard ''Gaming'' ''dynamic'']"

definition generateDynamicScienceQuestions :: "Question list" where
  "generateDynamicScienceQuestions =
    [entry ''What is the powerhouse of the cell?''
       [''Nucleus'', ''Mitochondria'', ''Ribosome'', ''Endoplasmic Reticulum'']
       1 Easy ''Science'' ''dynamic'',
     entry ''What is the study of earthquakes called?''
       [''Geology'', ''Seismology'', ''Meteorology'', ''Oceanography'']
       1 Medium ''Science'' ''dynamic'',
     entry ''What is the Higgs boson also known as?''
       [''God particle'', ''Dark matter'', ''Antimatter'', ''Quantum particle'']
       0 Hard ''Science'' ''dynamic'',
     entry ''What is the chemical symbol for gold?''
       [''Go'', ''Gd'', ''Au'', ''Ag'']
       2 Medium ''Science'' ''dynamic'',
     entry ''How many bones are in an adult human body?''
       [''206'', ''208'', ''210'', ''212'']
       0 Medium ''Science'' ''dynamic'',
     entry ''What is the speed of light in a vacuum?''
       [''299,792,458 m/s'', ''300,000,000 m/s'', ''299,000,000 m/s'', ''301,000,000 m/s'']
       0 Hard ''Science'' ''dynamic'']"

definition generateDynamicTechnologyQuestions :: "Question list" where
  "generateDynamicTechnologyQuestions =
    [entry ''What does 'IoT' stand for?''
       [''Internet of Things'', ''Input Output Technology'', ''Integrated Online Technology'', ''Interactive Object Technology'']
       0 Easy ''Technology'' ''dynamic'',
     entry ''Which company developed the React JavaScript library?''
       [''Google'', ''Facebook'', ''Microsoft'', ''Twitter'']
       1 Medium ''Technology'' ''dynamic'',
     entry ''What is the maximum theoretical speed of USB 3.0?''
       [''480 Mbps'', ''5 Gbps'', ''10 Gbps'', ''20 Gbps'']
       1 Hard ''Technology'' ''dynamic'',
     entry ''What does 'AI' stand for?''
       [''Artificial Intelligence'', ''Automated Intelligence'', ''Advanced Intelligence'', ''Algorithmic Intelligence'']
       0 Easy ''Technology'' ''dynamic'',
     entry ''Which programming language is known for its use in machine learning?''
       [''JavaScript'', ''Python'', ''C++'', ''Java'']
       1 Medium ''Technology'' ''dynamic'',
     entry ''What does 'VPN' stand for?''
       [''Virtual Private Network'', ''Very Private Network'', ''Verified Private Network'', ''Variable Private Network'']
       0 Easy ''Technology'' ''dynamic'']"

definition generateDynamicMoviesQuestions :: "Question list" where
  "generateDynamicMoviesQuestions =
    [entry ''Which movie features the line 'May the Force be with you'?''
       [''Star Trek'', ''Star Wars'', ''Guardians of the Galaxy'', ''Interstellar'']
       1 Easy ''Movies'' ''dynamic'',
     entry ''Who directed the movie 'Inception'?''
       [''Steven Spielberg'', ''Christopher Nolan'', ''Martin Scorsese'', ''Quentin Tarantino'']
       1 Medium ''Movies'' ''dynamic'',
     entry ''Which movie won the Academy Award for Best Picture in 2019?''
       [''Green Book'', ''Roma'', ''Black Panther'', ''A Star Is Born'']
       0 Hard ''Movies'' ''dynamic'',
     entry ''What is the highest-grossing R-rated movie of all time?''
       [''Deadpool'', ''Joker'', ''The Matrix'', ''John Wick'']
       1 Hard ''Movies'' ''dynamic'']"

definition generateDynamicRedditQuestions :: "Question list" where
  "generateDynamicRedditQuestions =
    [entry ''What does 'ELI5' mean on Reddit?''
       [''Explain Like I'm 5'', ''Everyone Loves Internet 5'', ''Easy Learning In 5'', ''Elaborate Like It's 5'']
       0 Easy ''Reddit Culture'' ''dynamic'',
     entry ''What does 'FTFY' mean on Reddit?''
       [''Fixed That For You'', ''For The First Year'', ''From The Future You'', ''Find The Final Year'']
       0 Medium ''Reddit Culture'' ''dynamic'',
     entry ''What is Reddit Premium?''
       [''Ad-free browsing'', ''Special features'', ''Monthly coins'', ''All of the above'']
       3 Easy ''Reddit Culture'' ''dynamic'']"

definition generateDynamicWorldNewsQuestions :: "Question list" where
  "generateDynamicWorldNewsQuestions =
    [entry ''Which country has the most time zones?''
       [''Russia'', ''United States'', ''China'', ''France'']
       0 Medium ''Geography'' ''dynamic'',
     entry ''What is the most spoken language in the world?''
       [''English'', ''Mandarin Chinese'', ''Spanish'', ''Hindi'']
       1 Medium ''Geography'' ''dynamic'',
     entry ''Which country is both in Europe and Asia?''
       [''Russia'', ''Turkey'', ''Kazakhstan'', ''All of the above'']
       3 Medium ''Geography'' ''dynamic'']"

definition generateDynamicGeneralQuestions :: "Question list" where
  "generateDynamicGeneralQuestions =
    [entry ''What does 'TIL' mean on Reddit?''
       [''Today I Learned'', ''This Is Life'', ''Time Is Limited'', ''Take It Literally'']
       0 Easy ''Reddit'' ''dynamic'',
     entry ''What is the Reddit cake day?''
       [''Birthday'', ''Account anniversary'', ''Cake recipe day'', ''Special event'']
       1 Easy ''Reddit'' ''dynamic'',
     entry ''What does 'NSFW' stand for?''
       [''Not Safe For Work'', ''Not Suitable For Watching'', ''New Safe For Web'', ''Never Safe For Workers'']
       0 Easy ''Reddit'' ''dynamic'']"

definition generateDynamicProgrammingQuestions :: "Question list" where
  "generateDynamicProgrammingQuestions =
    [entry ''What does 'DRY' principle stand for in programming?''
       [''Don't Repeat Yourself'', ''Do Repeat Yourself'', ''Don't Run Yet'', ''Data Retrieval Yearly'']
       0 Medium ''Programming'' ''dynamic'',
     entry ''What is the time complexity of bubble sort?''
       [''O(n)'', ''O(n log n)'', (''O(n'' @ [CHR 0xC2, CHR 0xB2] @ '')''), ''O(log n)'']
       2 Hard ''Programming'' ''dynamic'',
     entry ''Which of these is not a programming paradigm?''
       [''Object-oriented'', ''Functional'', ''Procedural'', ''Circular'']
       3 Medium ''Programming'' ''dynamic'']"

definition generateDynamicHistoryQuestions :: "Question list" where
  "generateDynamicHistoryQuestions =
    [entry ''In which year did the Berlin Wall fall?''
       [''1987'', ''1989'', ''1991'', ''1993'']
       1 Medium ''History'' ''dynamic'',
     entry ''Who was the first President of the United States?''
       [''Thomas Jefferson'', ''George Washington'', ''John Adams'', ''Benjamin Franklin'']
       1 Easy ''History'' ''dynamic'',
     entry ''Which empire was known for building Machu Picchu?''
       [''Aztec'', ''Maya'', ''Inca'', ''Olmec'']
       2 Medium ''History'' ''dynamic'']"

definition generateDynamicSportsQuestions :: "Question list" where
  "generateDynamicSportsQuestions =
    [entry ''How many points is a touchdown worth in American football?''
       [''3'', ''6'', ''7'', ''8'']
       1 Easy ''Sports'' ''dynamic'',
     entry ''Which country has won the most FIFA World Cups?''
       [''Germany'', ''Argentina'', ''Brazil'', ''Italy'']
       2 Medium ''Sports'' ''dynamic'',
     entry ''How many players are on a volleyball team on the court?''
       [''5'', ''6'', ''7'', ''8'']
       1 Easy ''Sports'' ''dynamic'']"

text \<open>\<open>initializeQuestionBank\<close>: the ten realms, in the order they are set.\<close>

definition initializeQuestionBank :: "(string \<times> Question list) list" where
  "initializeQuestionBank =
    [(''gaming'', COMPREHENSIVE_QUESTIONS_gaming @ generateAdditionalGamingQuestions
                   @ generateDynamicGamingQuestions),
     (''science'', COMPREHENSIVE_QUESTIONS_science @ generateAdditionalScienceQuestions
                    @ generateDynamicScienceQuestions),
     (''technology'', COMPREHENSIVE_QUESTIONS_technology @ generateAdditionalTechnologyQuestions
                       @ generateDynamicTechnologyQuestions),
     (''movies'', getMoviesQuestions @ generateDynamicMoviesQuestions),
     (''askreddit'', getAskRedditQuestions @ generateDynamicRedditQuestions),
     (''worldnews'', getWorldNewsQuestions @ generateDynamicWorldNewsQuestions),
     (''general'', getGeneralRedditQuestions @ generateDynamicGeneralQuestions),
     (''programming'', getProgrammingQuestions @ generateDynamicProgrammingQuestions),
     (''history'', getHistoryQuestions @ generateDynamicHistoryQuestions),
     (''sports'', getSportsQuestions @ generateDynamicSportsQuestions)]"

text \<open>The singleton after its constructor: the bank is filled, no realm has a cooldown set.\<close>

definition getInstance :: db where
  "getInstance = \<lparr>questionBank = initializeQuestionBank, recentlyUsedQuestions = []\<rparr>"

subsection \<open>The public operation\<close>

text \<open>
  The fallback chain of \<open>getRandomQuestions\<close>: the realm's array, else the array of
  \<open>general\<close>, else the built-in questions.
\<close>

definition realmQuestionsOf :: "db \<Rightarrow> string \<Rightarrow> Question list" where
  "realmQuestionsOf d realm =
     (let normalizedRealm = normalizeRealmName realm;
          general = (case map_of (questionBank d) ''general'' of None \<Rightarrow> [] | Some g \<Rightarrow> g);
          realmQuestions = (case map_of (questionBank d) normalizedRealm of
                              None \<Rightarrow> general
                            | Some qs \<Rightarrow> if length qs = 0 then general else qs)
      in if length realmQuestions = 0 then getBasicFallbackQuestions else realmQuestions)"

text \<open>
  \<open>getRandomQuestions(realm, count = 6, sessionId?)\<close>: \<open>None\<close> for \<open>count\<close> is the
  omitted argument. \<open>count\<close> is a JavaScript number; the callers pass integers (50, and
  \<open>6 - questions.length\<close>), so it is an \<open>int\<close>, negative values included. The result
  is the returned array, the database afterwards and the number of \<open>Math.random\<close> draws
  taken. No statement of the function throws.
\<close>

definition getRandomQuestions ::
  "env \<Rightarrow> db \<Rightarrow> nat \<Rightarrow> string \<Rightarrow> int option \<Rightarrow> string option \<Rightarrow> qobj list \<times> db \<times> nat" where
  "getRandomQuestions e d pos realm countArg sessionId =
     (let cnt = (case countArg of None \<Rightarrow> 6 | Some c \<Rightarrow> c);
          realmQuestions = realmQuestionsOf d realm;
          (questions, d', pos1) = getBalancedQuestionMix e d pos (objects realmQuestions) cnt;
          (questionsWithShuffledOptions, pos2) = shuffleQuestionOptions e pos1 questions;
          (result, pos3) = advancedShuffle e pos2 questionsWithShuffledOptions sessionId
      in (result, d', pos3))"

subsection \<open>Derived notions\<close>

text \<open>The candidates of a call: what the cooldown filter leaves of the corpus.\<close>

definition availableOf :: "db \<Rightarrow> Question list \<Rightarrow> qobj list" where
  "availableOf d corpus =
     fst (filterRecentlyUsedQuestions d (objects corpus) (getCurrentRealm corpus))"

text \<open>
  The identity under which a returned question was recorded: that of the corpus entry it
  was built from, computed before its options were shuffled.
\<close>

definition servedIdentity :: "Question list \<Rightarrow> qobj \<Rightarrow> string" where
  "servedIdentity corpus obj = getQuestionId (corpus ! fst obj)"

text \<open>The cooldown set the map holds for a key; a missing key is the empty set.\<close>

definition cooldownSetOf :: "db \<Rightarrow> string \<Rightarrow> string list" where
  "cooldownSetOf d realm =
     (case map_of (recentlyUsedQuestions d) realm of None \<Rightarrow> [] | Some s \<Rightarrow> s)"

text \<open>
  The candidates of \<open>filterRecentlyUsedQuestions\<close> that are not on cooldown: the array
  \<open>availableQuestions\<close> of the source before the floor is applied.
\<close>

definition freshCandidates :: "db \<Rightarrow> qobj list \<Rightarrow> string \<Rightarrow> qobj list" where
  "freshCandidates d questions realm =
     filter (\<lambda>q. getQuestionId (snd q) \<notin> set (cooldownSetOf d realm)) questions"

text \<open>
  The bound of the cooldown map: no key holds more than
  \<open>questionCooldownPeriod * 6\<close> identities.
\<close>

definition cooldownBounded :: "db \<Rightarrow> bool" where
  "cooldownBounded d =
     list_all (\<lambda>entry. int (length (snd entry)) \<le> questionCooldownPeriod * 6)
       (recentlyUsedQuestions d)"

subsection \<open>Concrete inputs\<close>

text \<open>
  An environment in which every draw of \<open>Math.random\<close> and of the seeded generator is
  \<open>0\<close> and the clock reads \<open>0\<close>. A Fisher-Yates pass on these draws moves the first
  element to the end.
\<close>

definition constantDraws :: "nat \<Rightarrow> nat \<Rightarrow> nat" where
  "constantDraws v k = v"

definition zeroEnv :: env where
  "zeroEnv =
     \<lparr>mathRandom = constantDraws 0, seededRandom = (\<lambda>seed. constantDraws 0), dateNow = 0\<rparr>"

text \<open>
  A database with an empty bank and no cooldown set, and sixty-one questions with
  pairwise different texts (\<open>k\<close> letters \<open>a\<close>, for \<open>k\<close> from 0 to 60), to exercise the
  prune step of \<open>trackRecentlyUsedQuestions\<close>.
\<close>

definition emptyDb :: db where
  "emptyDb = \<lparr>questionBank = [], recentlyUsedQuestions = []\<rparr>"

definition sixtyOneQuestions :: "Question list" where
  "sixtyOneQuestions =
     map (\<lambda>k. entry (replicate k CHR ''a'') [''w'', ''x'', ''y'', ''z''] 0 Easy ''Test'' ''test'')
       [0..<61]"

text \<open>
  The first call on the freshly constructed database: two questions of the realm
  \<open>general\<close>, and the database it leaves.
\<close>

definition firstGeneralCall :: "qobj list \<times> db \<times> nat" where
  "firstGeneralCall = getRandomQuestions zeroEnv getInstance 0 ''general'' (Some 2) None"

definition afterFirstGeneralCall :: db where
  "afterFirstGeneralCall = fst (snd firstGeneralCall)"

text \<open>
  A question whose first and second option have the same text, and a bank of one realm
  with one question.
\<close>

definition twinQuestion :: Question where
  "twinQuestion = entry ''Pick one'' [''A'', ''A'', ''B'', ''C''] 0 Easy ''Test'' ''test''"

definition oneQuestionDb :: db where
  "oneQuestionDb =
     \<lparr>questionBank = [(''test'', [entry ''Pick b'' [''a'', ''b''] 1 Easy ''Test'' ''test''])],
      recentlyUsedQuestions = []\<rparr>"

text \<open>
  The permutation that \<open>shuffleArray\<close> applies on given draws, read off by shuffling the
  array with every element tagged by its position (the swaps do not depend on the
  contents): entry \<open>k\<close> is the original position of the element that ends at position
  \<open>k\<close>.
\<close>

definition shuffledPositions :: "env \<Rightarrow> nat \<Rightarrow> 'a list \<Rightarrow> nat list" where
  "shuffledPositions e pos xs = map fst (fst (shuffleArray e pos (zip [0..<length xs] xs)))"

text \<open>A question with two options of different texts, the second one correct.\<close>

definition pickBQuestion :: Question where
  "pickBQuestion = entry ''Pick b'' [''a'', ''b''] 1 Easy ''Test'' ''test''"

subsection \<open>Permutation lemmas\<close>

lemma length_swap: "length (swap i j xs) = length xs"
  by (simp add: swap_def)

lemma mset_swap_in_range:
  "i < length xs \<Longrightarrow> j < length xs \<Longrightarrow> mset (swap i j xs) = mset xs"
  unfolding swap_def by (rule mset_swap)

lemma randomIndex_less: "0 < m \<Longrightarrow> randomIndex r m < m"
  by (simp add: randomIndex_def)

lemma fisherYates_mset:
  "i < length xs \<or> i = 0 \<Longrightarrow> mset (fst (fisherYates rnd pos i xs)) = mset xs"
proof (induction i arbitrary: pos xs)
  case 0
  then show ?case by simp
next
  case (Suc i)
  from Suc.prems have lt: "Suc i < length xs" by auto
  have j: "randomIndex (rnd pos) (Suc i + 1) < length xs"
    using randomIndex_less [of "Suc i + 1" "rnd pos"] lt by simp
  have "mset (swap (Suc i) (randomIndex (rnd pos) (Suc i + 1)) xs) = mset xs"
    using lt j by (rule mset_swap_in_range)
  moreover have "i < length (swap (Suc i) (randomIndex (rnd pos) (Suc i + 1)) xs)"
    using lt by (simp add: length_swap)
  ultimately show ?case
    using Suc.IH [of "swap (Suc i) (randomIndex (rnd pos) (Suc i + 1)) xs" "Suc pos"]
    by (simp add: Let_def)
qed

lemma shuffleArray_mset: "mset (fst (shuffleArray e pos xs)) = mset xs"
  unfolding shuffleArray_def
  by (rule fisherYates_mset) (cases xs, auto)

lemma mixPass_mset: "mset (fst (mixPass rnd pos i xs)) = mset xs"
proof (induction rnd pos i xs rule: mixPass.induct)
  case (1 rnd pos i xs)
  show ?case
  proof (cases "i < length xs")
    case True
    then have "randomIndex (rnd pos) (length xs) < length xs"
      by (cases xs) (simp_all add: randomIndex_def)
    with True have "mset (swap i (randomIndex (rnd pos) (length xs)) xs) = mset xs"
      by (intro mset_swap_in_range)
    with True "1.IH" show ?thesis
      by (subst mixPass.simps) (simp add: length_swap)
  next
    case False
    then show ?thesis by (subst mixPass.simps) simp
  qed
qed

lemma advancedShuffle_mset:
  "mset (fst (advancedShuffle e pos array sessionId)) = mset array"
proof -
  have "mset (fst (fisherYates r 0 (length array - 1) array)) = mset array" for r
    by (rule fisherYates_mset) (cases array, auto)
  then show ?thesis
    by (simp add: advancedShuffle_def Let_def mixPass_mset)
qed

text \<open>
  C9. For every input list and every optional session identifier, \<open>advancedShuffle\<close>
  (the seeded Fisher-Yates pass followed by the pass on \<open>Math.random\<close>) returns a
  permutation of its input: the output has exactly the elements of the input, each as
  often as the input has it.
\<close>

theorem advancedShuffle_permutation:
  "mset (fst (advancedShuffle e pos array sessionId)) = mset array"
  by (rule advancedShuffle_mset)

subsection \<open>Selection lemmas\<close>

text \<open>The ceiling in integer arithmetic, also the equation by which it is computed.\<close>

lemma ceil04_eq [code]: "ceil04 c = (2 * c + 4) div 5"
  unfolding ceil04_def by (simp add: ceiling_def floor_divide_of_int_eq) linarith

lemma shuffleArray_length: "length (fst (shuffleArray e pos xs)) = length xs"
  using shuffleArray_mset [of e pos xs] by (rule mset_eq_length)

lemma shuffleArray_set: "set (fst (shuffleArray e pos xs)) = set xs"
  using shuffleArray_mset [of e pos xs] by (rule mset_eq_setD)

lemma shuffleArray_distinct: "distinct (fst (shuffleArray e pos xs)) = distinct xs"
  using shuffleArray_mset [of e pos xs] by (rule mset_eq_imp_distinct_iff)

lemma sliceTo_is_take: "\<exists>k. sliceTo xs e = take k xs"
  by (auto simp: sliceTo_def Let_def)

lemma set_sliceTo: "set (sliceTo xs e) \<subseteq> set xs"
  using sliceTo_is_take [of xs e] by (auto dest: in_set_takeD)

lemma distinct_sliceTo: "distinct xs \<Longrightarrow> distinct (sliceTo xs e)"
  using sliceTo_is_take [of xs e] by auto

lemma length_sliceTo_le: "length (sliceTo xs e) \<le> length xs"
  using sliceTo_is_take [of xs e] by auto

lemma length_sliceTo_nonneg: "0 \<le> e \<Longrightarrow> length (sliceTo xs e) = min (nat e) (length xs)"
  by (auto simp: sliceTo_def Let_def min_def)

lemma pickFromTier_set: "set (fst (pickFromTier e pos tier t)) \<subseteq> set tier"
  using set_sliceTo [of "fst (shuffleArray e pos tier)"] shuffleArray_set [of e pos tier]
  by (auto simp: pickFromTier_def case_prod_beta)

lemma pickFromTier_distinct: "distinct tier \<Longrightarrow> distinct (fst (pickFromTier e pos tier t))"
  by (simp add: pickFromTier_def case_prod_beta distinct_sliceTo shuffleArray_distinct)

lemma tierPhase_sound:
  assumes "distinct av" and "tierPhase e pos av cnt = ((E, M, H), p)"
  shows "distinct (E @ M @ H) \<and> set (E @ M @ H) \<subseteq> set av"
proof -
  let ?eq = "filter (\<lambda>q. difficulty (snd q) = Easy) av"
  let ?mq = "filter (\<lambda>q. difficulty (snd q) = Medium) av"
  let ?hq = "filter (\<lambda>q. difficulty (snd q) = Hard) av"
  from assms(2) obtain p0 p1 p2 where
    E: "E = fst (pickFromTier e p0 ?eq (easyCount cnt))" and
    M: "M = fst (pickFromTier e p1 ?mq (mediumCount cnt))" and
    H: "H = fst (pickFromTier e p2 ?hq (hardCount cnt))"
    by (auto simp: tierPhase_def Let_def case_prod_beta)
  have sE: "set E \<subseteq> set ?eq" unfolding E by (rule pickFromTier_set)
  have sM: "set M \<subseteq> set ?mq" unfolding M by (rule pickFromTier_set)
  have sH: "set H \<subseteq> set ?hq" unfolding H by (rule pickFromTier_set)
  have dE: "distinct E" unfolding E using assms(1) by (intro pickFromTier_distinct) simp
  have dM: "distinct M" unfolding M using assms(1) by (intro pickFromTier_distinct) simp
  have dH: "distinct H" unfolding H using assms(1) by (intro pickFromTier_distinct) simp
  have tE: "difficulty (snd x) = Easy" if "x \<in> set E" for x using sE that by auto
  have tM: "difficulty (snd x) = Medium" if "x \<in> set M" for x using sM that by auto
  have tH: "difficulty (snd x) = Hard" if "x \<in> set H" for x using sH that by auto
  have "set E \<inter> set M = {}" "set E \<inter> set H = {}" "set M \<inter> set H = {}"
    using tE tM tH by fastforce+
  moreover have "set (E @ M @ H) \<subseteq> set av"
    using sE sM sH by auto
  ultimately show ?thesis using dE dM dH by auto
qed

lemma length_filter_not_in:
  assumes "distinct av" "distinct sel" "set sel \<subseteq> set av"
  shows "length (filter (\<lambda>q. q \<notin> set sel) av) = length av - length sel"
proof -
  have "distinct (filter (\<lambda>q. q \<notin> set sel) av)" using assms(1) by simp
  then have "length (filter (\<lambda>q. q \<notin> set sel) av) = card (set av - set sel)"
    by (metis distinct_card set_filter set_diff_eq)
  also have "\<dots> = card (set av) - card (set sel)"
    using assms(3) by (simp add: card_Diff_subset)
  finally show ?thesis using assms(1,2) by (simp add: distinct_card)
qed

lemma length_le_of_subset:
  assumes "distinct sel" "set sel \<subseteq> set av"
  shows "length sel \<le> length av"
proof -
  have "length sel = card (set sel)" using assms(1) by (simp add: distinct_card)
  also have "\<dots> \<le> card (set av)" using assms(2) by (simp add: card_mono)
  also have "\<dots> \<le> length av" by (rule card_length)
  finally show ?thesis .
qed

lemma backfill_sound:
  assumes "distinct av" "distinct sel" "set sel \<subseteq> set av"
  shows "distinct (fst (backfill e pos av sel cnt))"
    and "set (fst (backfill e pos av sel cnt)) \<subseteq> set av"
    and "int (length sel) < cnt \<Longrightarrow> length (fst (backfill e pos av sel cnt)) = min (nat cnt) (length av)"
    and "\<not> int (length sel) < cnt \<Longrightarrow> fst (backfill e pos av sel cnt) = sel"
proof -
  let ?rest = "filter (\<lambda>q. q \<notin> set sel) av"
  let ?rem = "fst (shuffleArray e pos ?rest)"
  let ?k = "cnt - int (length sel)"
  have dr: "distinct (sliceTo ?rem ?k)"
    using assms(1) by (intro distinct_sliceTo) (simp add: shuffleArray_distinct)
  have sr: "set (sliceTo ?rem ?k) \<subseteq> set ?rest"
    using set_sliceTo [of ?rem ?k] by (simp add: shuffleArray_set)
  show "distinct (fst (backfill e pos av sel cnt))"
    using assms(2) dr sr by (auto simp: backfill_def case_prod_beta)
  show "set (fst (backfill e pos av sel cnt)) \<subseteq> set av"
    using assms(3) sr by (auto simp: backfill_def case_prod_beta)
  show "fst (backfill e pos av sel cnt) = sel" if "\<not> int (length sel) < cnt"
    using that by (simp add: backfill_def)
  show "length (fst (backfill e pos av sel cnt)) = min (nat cnt) (length av)"
    if lt: "int (length sel) < cnt"
  proof -
    have le: "length sel \<le> length av" using assms(2,3) by (rule length_le_of_subset)
    have "length ?rem = length av - length sel"
      using assms by (simp add: shuffleArray_length length_filter_not_in)
    moreover have "length (sliceTo ?rem ?k) = min (nat ?k) (length ?rem)"
      using lt by (intro length_sliceTo_nonneg) simp
    ultimately have "length (sliceTo ?rem ?k) = min (nat ?k) (length av - length sel)"
      by simp
    then show ?thesis
      using lt le by (simp add: backfill_def case_prod_beta min_def) linarith
  qed
qed

lemma objects_distinct: "distinct (objects qs)"
  by (simp add: objects_def distinct_zipI1)

lemma objects_map_fst: "map fst (objects qs) = [0..<length qs]"
  by (simp add: objects_def)

lemma objects_map_snd: "map snd (objects qs) = qs"
  by (simp add: objects_def)

lemma in_objects_iff: "(i, q) \<in> set (objects qs) \<longleftrightarrow> i < length qs \<and> q = qs ! i"
proof
  assume "(i, q) \<in> set (objects qs)"
  then show "i < length qs \<and> q = qs ! i"
    by (auto simp: objects_def in_set_zip)
next
  assume a: "i < length qs \<and> q = qs ! i"
  then have "[0..<length qs] ! i = i \<and> qs ! i = q \<and> i < length qs" by simp
  then show "(i, q) \<in> set (objects qs)"
    unfolding objects_def in_set_zip by (intro exI [of _ i]) simp
qed

lemma filterRecentlyUsedQuestions_subset:
  "set (fst (filterRecentlyUsedQuestions d qs r)) \<subseteq> set qs"
  by (auto simp: filterRecentlyUsedQuestions_def Let_def)

lemma filterRecentlyUsedQuestions_distinct:
  "distinct qs \<Longrightarrow> distinct (fst (filterRecentlyUsedQuestions d qs r))"
  by (auto simp: filterRecentlyUsedQuestions_def Let_def)

lemma getBalancedQuestionMix_sound:
  shows "distinct (fst (getBalancedQuestionMix e d pos (objects corpus) cnt))"
    and "set (fst (getBalancedQuestionMix e d pos (objects corpus) cnt))
           \<subseteq> set (availableOf d corpus)"
    and "0 \<le> cnt \<Longrightarrow> length (fst (getBalancedQuestionMix e d pos (objects corpus) cnt))
           = min (nat cnt) (length (availableOf d corpus))"
proof -
  let ?av = "availableOf d corpus"
  define r where "r = fst (getBalancedQuestionMix e d pos (objects corpus) cnt)"
  obtain E M H p where tp: "tierPhase e pos ?av cnt = ((E, M, H), p)"
    by (metis prod.exhaust)
  let ?sel = "fst (backfill e p ?av (E @ M @ H) cnt)"
  have dav: "distinct ?av"
    unfolding availableOf_def by (intro filterRecentlyUsedQuestions_distinct objects_distinct)
  from tierPhase_sound [OF dav tp]
  have d3: "distinct (E @ M @ H)" and s3: "set (E @ M @ H) \<subseteq> set ?av" by simp_all
  have r: "r = sliceTo ?sel cnt"
    using tp by (simp add: r_def getBalancedQuestionMix_def Let_def case_prod_beta
        availableOf_def objects_map_snd)
  have dsel: "distinct ?sel" using dav d3 s3 by (rule backfill_sound(1))
  have ssel: "set ?sel \<subseteq> set ?av" using dav d3 s3 by (rule backfill_sound(2))
  have "distinct r" unfolding r using dsel by (rule distinct_sliceTo)
  then show "distinct (fst (getBalancedQuestionMix e d pos (objects corpus) cnt))"
    unfolding r_def .
  have "set r \<subseteq> set ?av" unfolding r using set_sliceTo [of ?sel cnt] ssel by blast
  then show "set (fst (getBalancedQuestionMix e d pos (objects corpus) cnt)) \<subseteq> set ?av"
    unfolding r_def .
  have "length r = min (nat cnt) (length ?av)" if nn: "0 \<le> cnt"
  proof (cases "int (length (E @ M @ H)) < cnt")
    case True
    from backfill_sound(3) [OF dav d3 s3 True]
    have "length ?sel = min (nat cnt) (length ?av)" .
    then show ?thesis unfolding r using nn by (simp add: length_sliceTo_nonneg)
  next
    case False
    from backfill_sound(4) [OF dav d3 s3 False] have sel: "?sel = E @ M @ H" .
    have "length (E @ M @ H) \<le> length ?av" using d3 s3 by (rule length_le_of_subset)
    then show ?thesis unfolding r sel using nn False
      by (simp add: length_sliceTo_nonneg)
  qed
  then show "0 \<le> cnt \<Longrightarrow> length (fst (getBalancedQuestionMix e d pos (objects corpus) cnt))
          = min (nat cnt) (length ?av)"
    unfolding r_def .
qed

subsection \<open>Option shuffling and the whole call\<close>

lemma indexOf_found:
  "x \<in> set xs \<Longrightarrow> 0 \<le> indexOf xs x \<and> indexOf xs x < int (length xs) \<and> xs ! nat (indexOf xs x) = x"
proof (induction xs)
  case Nil
  then show ?case by simp
next
  case (Cons y ys)
  show ?case
  proof (cases "y = x")
    case True
    then show ?thesis by simp
  next
    case False
    with Cons.prems have "x \<in> set ys" by simp
    from Cons.IH [OF this] False show ?thesis
      by (simp add: Let_def nat_add_distrib)
  qed
qed

lemma elemAt_valid:
  "0 \<le> i \<Longrightarrow> i < int (length xs) \<Longrightarrow> elemAt xs i = Some (xs ! nat i) \<and> xs ! nat i \<in> set xs"
  by (simp add: elemAt_def)

lemma shuffleOptionsOf_fst: "fst (fst (shuffleOptionsOf e p obj)) = fst obj"
  by (simp add: shuffleOptionsOf_def Let_def case_prod_beta)

lemma shuffleOptionsOf_question:
  "question (snd (fst (shuffleOptionsOf e p obj))) = question (snd obj)"
  by (simp add: shuffleOptionsOf_def Let_def case_prod_beta)

lemma shuffleOptionsOf_options:
  "mset (options (snd (fst (shuffleOptionsOf e p obj)))) = mset (options (snd obj))"
  by (simp add: shuffleOptionsOf_def Let_def case_prod_beta shuffleArray_mset)

lemma shuffleOptionsOf_correct:
  fixes e :: env and p :: nat and obj :: qobj
  assumes "0 \<le> correct (snd obj)" and "correct (snd obj) < int (length (options (snd obj)))"
  defines "q' \<equiv> snd (fst (shuffleOptionsOf e p obj))"
  shows "0 \<le> correct q' \<and> correct q' < int (length (options q'))
         \<and> options q' ! nat (correct q') = options (snd obj) ! nat (correct (snd obj))"
proof -
  let ?os = "options (snd obj)"
  let ?a = "?os ! nat (correct (snd obj))"
  let ?sh = "fst (shuffleArray e p ?os)"
  from elemAt_valid [OF assms(1,2)]
  have at: "elemAt ?os (correct (snd obj)) = Some ?a" and mem: "?a \<in> set ?os" by simp_all
  have o': "options q' = ?sh" and c': "correct q' = indexOf ?sh ?a"
    using at by (simp_all add: q'_def shuffleOptionsOf_def Let_def case_prod_beta)
  from mem have "?a \<in> set ?sh" by (simp add: shuffleArray_set)
  from indexOf_found [OF this] show ?thesis unfolding o' c' by simp
qed

lemma shuffleQuestionOptions_elem:
  "obj' \<in> set (fst (shuffleQuestionOptions e pos qs)) \<Longrightarrow>
     \<exists>obj p. obj \<in> set qs \<and> obj' = fst (shuffleOptionsOf e p obj)"
proof (induction qs arbitrary: pos)
  case Nil
  then show ?case by simp
next
  case (Cons q qs)
  from Cons.prems consider
      "obj' = fst (shuffleOptionsOf e pos q)"
    | "obj' \<in> set (fst (shuffleQuestionOptions e (snd (shuffleOptionsOf e pos q)) qs))"
    by (auto simp: Let_def case_prod_beta)
  then show ?case
  proof cases
    case 1
    then show ?thesis by (intro exI [of _ q] exI [of _ pos]) simp
  next
    case 2
    from Cons.IH [OF this] show ?thesis by auto
  qed
qed

lemma shuffleQuestionOptions_map_fst:
  "map fst (fst (shuffleQuestionOptions e pos qs)) = map fst qs"
  by (induction qs arbitrary: pos) (simp_all add: Let_def case_prod_beta shuffleOptionsOf_fst)

lemma getRandomQuestions_fst:
  "\<exists>p1 p2. fst (getRandomQuestions e d pos realm countArg sid) =
     fst (advancedShuffle e p2
            (fst (shuffleQuestionOptions e p1
                    (fst (getBalancedQuestionMix e d pos (objects (realmQuestionsOf d realm))
                            (case countArg of None \<Rightarrow> 6 | Some c \<Rightarrow> c))))) sid)"
  by (auto simp: getRandomQuestions_def Let_def case_prod_beta)

lemma getRandomQuestions_refs:
  "mset (map fst (fst (getRandomQuestions e d pos realm countArg sid))) =
   mset (map fst (fst (getBalancedQuestionMix e d pos (objects (realmQuestionsOf d realm))
                            (case countArg of None \<Rightarrow> 6 | Some c \<Rightarrow> c))))"
proof -
  from getRandomQuestions_fst [of e d pos realm countArg sid] obtain p1 p2 where
    r: "fst (getRandomQuestions e d pos realm countArg sid) =
     fst (advancedShuffle e p2
            (fst (shuffleQuestionOptions e p1
                    (fst (getBalancedQuestionMix e d pos (objects (realmQuestionsOf d realm))
                            (case countArg of None \<Rightarrow> 6 | Some c \<Rightarrow> c))))) sid)" by blast
  let ?picks = "fst (getBalancedQuestionMix e d pos (objects (realmQuestionsOf d realm))
                            (case countArg of None \<Rightarrow> 6 | Some c \<Rightarrow> c))"
  let ?sh = "fst (shuffleQuestionOptions e p1 ?picks)"
  have "mset (map fst (fst (advancedShuffle e p2 ?sh sid))) =
        image_mset fst (mset (fst (advancedShuffle e p2 ?sh sid)))" by simp
  also have "\<dots> = image_mset fst (mset ?sh)" by (simp only: advancedShuffle_mset)
  also have "\<dots> = mset (map fst ?sh)" by simp
  also have "\<dots> = mset (map fst ?picks)" by (simp only: shuffleQuestionOptions_map_fst)
  finally show ?thesis unfolding r .
qed

lemma availableOf_subset: "set (availableOf d corpus) \<subseteq> set (objects corpus)"
  unfolding availableOf_def by (rule filterRecentlyUsedQuestions_subset)

lemma picks_refs_distinct:
  "distinct (map fst (fst (getBalancedQuestionMix e d pos (objects corpus) cnt)))"
proof -
  let ?r = "fst (getBalancedQuestionMix e d pos (objects corpus) cnt)"
  have "set ?r \<subseteq> set (objects corpus)"
    using getBalancedQuestionMix_sound(2) [of e d pos corpus cnt] availableOf_subset by blast
  moreover have "inj_on fst (set (objects corpus))"
    using objects_map_fst [of corpus] by (metis distinct_map distinct_upt)
  ultimately have "inj_on fst (set ?r)" by (rule inj_on_subset [rotated])
  with getBalancedQuestionMix_sound(1) [of e d pos corpus cnt] show ?thesis
    by (simp add: distinct_map)
qed

lemma picks_refs_range:
  "set (map fst (fst (getBalancedQuestionMix e d pos (objects corpus) cnt))) \<subseteq> {..<length corpus}"
  using getBalancedQuestionMix_sound(2) [of e d pos corpus cnt] availableOf_subset [of d corpus]
  by (auto simp: in_objects_iff)

lemma getRandomQuestions_sound:
  fixes countArg :: "int option" and e :: env and d :: db and pos :: nat
    and realm :: string and sid :: "string option"
  defines "cnt \<equiv> (case countArg of None \<Rightarrow> 6 | Some c \<Rightarrow> c)"
  shows "distinct (map fst (fst (getRandomQuestions e d pos realm countArg sid)))"
    and "set (map fst (fst (getRandomQuestions e d pos realm countArg sid)))
           \<subseteq> {..<length (realmQuestionsOf d realm)}"
    and "0 \<le> cnt \<Longrightarrow> length (fst (getRandomQuestions e d pos realm countArg sid)) =
           min (nat cnt) (length (availableOf d (realmQuestionsOf d realm)))"
proof -
  let ?picks = "fst (getBalancedQuestionMix e d pos (objects (realmQuestionsOf d realm)) cnt)"
  let ?res = "fst (getRandomQuestions e d pos realm countArg sid)"
  have m: "mset (map fst ?res) = mset (map fst ?picks)"
    unfolding cnt_def by (rule getRandomQuestions_refs)
  show "distinct (map fst ?res)"
    using mset_eq_imp_distinct_iff [OF m] picks_refs_distinct by blast
  show "set (map fst ?res) \<subseteq> {..<length (realmQuestionsOf d realm)}"
    using mset_eq_setD [OF m] picks_refs_range by blast
  show "length ?res = min (nat cnt) (length (availableOf d (realmQuestionsOf d realm)))"
    if "0 \<le> cnt"
    using mset_eq_length [OF m] getBalancedQuestionMix_sound(3) [OF that] by simp
qed

subsection \<open>The cooldown filter\<close>

lemma filterRecentlyUsedQuestions_cases:
  "filterRecentlyUsedQuestions d questions realm =
     (if length (freshCandidates d questions realm) < 6
      then (questions, d\<lparr>recentlyUsedQuestions := AList.update realm [] (recentlyUsedQuestions d)\<rparr>)
      else (freshCandidates d questions realm, d))"
  by (simp add: filterRecentlyUsedQuestions_def freshCandidates_def cooldownSetOf_def Let_def)

lemma cooldownSetOf_update:
  "cooldownSetOf (d\<lparr>recentlyUsedQuestions := AList.update k v (recentlyUsedQuestions d)\<rparr>) r =
     (if r = k then v else cooldownSetOf d r)"
  by (simp add: cooldownSetOf_def update_conv')

lemma freshCandidates_empty: "cooldownSetOf d realm = [] \<Longrightarrow> freshCandidates d questions realm = questions"
  by (simp add: freshCandidates_def)

lemma availableOf_fresh:
  "cooldownSetOf d (getCurrentRealm corpus) = [] \<Longrightarrow> availableOf d corpus = objects corpus"
  by (simp add: availableOf_def filterRecentlyUsedQuestions_cases freshCandidates_empty)

lemma availableOf_cases:
  "availableOf d corpus =
     (if length (freshCandidates d (objects corpus) (getCurrentRealm corpus)) < 6
      then objects corpus
      else freshCandidates d (objects corpus) (getCurrentRealm corpus))"
  by (simp add: availableOf_def filterRecentlyUsedQuestions_cases)

lemma availableOf_length:
  "length (availableOf d corpus) =
     (if length (freshCandidates d (objects corpus) (getCurrentRealm corpus)) < 6
      then length corpus
      else length (freshCandidates d (objects corpus) (getCurrentRealm corpus)))"
  by (simp add: availableOf_cases objects_def)

lemma getRandomQuestions_db:
  "fst (snd (getRandomQuestions e d pos realm countArg sid)) =
   fst (snd (getBalancedQuestionMix e d pos (objects (realmQuestionsOf d realm))
               (case countArg of None \<Rightarrow> 6 | Some c \<Rightarrow> c)))"
  by (simp add: getRandomQuestions_def Let_def case_prod_beta)

lemma filterRecentlyUsedQuestions_bank:
  "questionBank (snd (filterRecentlyUsedQuestions d qs r)) = questionBank d"
  by (simp add: filterRecentlyUsedQuestions_def Let_def)

lemma trackRecentlyUsedQuestions_bank:
  "questionBank (trackRecentlyUsedQuestions d qs r) = questionBank d"
  by (simp add: trackRecentlyUsedQuestions_def Let_def)

lemma getBalancedQuestionMix_bank:
  "questionBank (fst (snd (getBalancedQuestionMix e d pos qs cnt))) = questionBank d"
  by (simp add: getBalancedQuestionMix_def Let_def case_prod_beta
      trackRecentlyUsedQuestions_bank filterRecentlyUsedQuestions_bank)

lemma getRandomQuestions_bank:
  "questionBank (fst (snd (getRandomQuestions e d pos realm countArg sid))) = questionBank d"
  by (simp add: getRandomQuestions_db getBalancedQuestionMix_bank)

lemma realmQuestionsOf_bank:
  "questionBank d' = questionBank d \<Longrightarrow> realmQuestionsOf d' realm = realmQuestionsOf d realm"
  by (simp add: realmQuestionsOf_def)

subsection \<open>Recording served questions\<close>

lemma foldl_setAdd_distinct: "distinct acc \<Longrightarrow> distinct (foldl setAdd acc xs)"
  by (induction xs arbitrary: acc) (simp_all add: setAdd_def)

lemma foldl_setAdd_fresh: "distinct (acc @ xs) \<Longrightarrow> foldl setAdd acc xs = acc @ xs"
  by (induction xs arbitrary: acc) (simp_all add: setAdd_def)

lemma newSet_distinct: "distinct xs \<Longrightarrow> newSet xs = xs"
  using foldl_setAdd_fresh [of "[]" xs] by (simp add: newSet_def)

lemma foldl_setAdd_length_le: "length (foldl setAdd acc xs) \<le> length acc + length xs"
proof (induction xs arbitrary: acc)
  case Nil
  then show ?case by simp
next
  case (Cons x xs)
  have "length (setAdd acc x) \<le> Suc (length acc)" by (simp add: setAdd_def)
  with Cons.IH [of "setAdd acc x"] show ?case by simp
qed

lemma newSet_length_le: "length (newSet xs) \<le> length xs"
  using foldl_setAdd_length_le [of "[]" xs] by (simp add: newSet_def)

lemma sliceFrom_minus30: "sliceFrom xs (- questionCooldownPeriod * 3) = drop (length xs - 30) xs"
  by (auto simp: sliceFrom_def questionCooldownPeriod_def Let_def max_def nat_diff_distrib'
      intro!: arg_cong2 [where f = drop])

lemma map_of_update_other: "r \<noteq> k \<Longrightarrow> map_of (AList.update k v m) r = map_of m r"
  by (simp add: update_conv')

text \<open>
  What \<open>trackRecentlyUsedQuestions\<close> leaves under the realm's key: the old set with the
  new identities added, or the set built from its last thirty members when that has more
  than sixty.
\<close>

lemma trackRecentlyUsedQuestions_set:
  "cooldownSetOf (trackRecentlyUsedQuestions d questions realm) realm =
     (let ins = foldl setAdd (cooldownSetOf d realm) (map getQuestionId questions)
      in if 60 < length ins then newSet (drop (length ins - 30) ins) else ins)"
proof -
  have old: "(case map_of (if map_of (recentlyUsedQuestions d) realm = None
                then AList.update realm [] (recentlyUsedQuestions d)
                else recentlyUsedQuestions d) realm of None \<Rightarrow> [] | Some s \<Rightarrow> s)
             = cooldownSetOf d realm"
    by (auto simp: cooldownSetOf_def update_conv')
  show ?thesis
    unfolding trackRecentlyUsedQuestions_def Let_def old sliceFrom_minus30
    by (simp add: cooldownSetOf_def update_conv' questionCooldownPeriod_def)
qed

lemma trackRecentlyUsedQuestions_other:
  "r \<noteq> realm \<Longrightarrow> map_of (recentlyUsedQuestions (trackRecentlyUsedQuestions d questions realm)) r
     = map_of (recentlyUsedQuestions d) r"
  by (simp add: trackRecentlyUsedQuestions_def Let_def update_conv')

subsection \<open>The bound of the cooldown map\<close>

lemma list_all_update:
  "list_all P m \<Longrightarrow> P (k, v) \<Longrightarrow> list_all P (AList.update k v m)"
  by (induction m) auto

lemma list_all_delete: "list_all P m \<Longrightarrow> list_all P (AList.delete k m)"
  by (induction m) auto

lemma filterRecentlyUsedQuestions_bounded:
  "cooldownBounded d \<Longrightarrow> cooldownBounded (snd (filterRecentlyUsedQuestions d qs r))"
  by (simp add: filterRecentlyUsedQuestions_cases cooldownBounded_def list_all_update
      questionCooldownPeriod_def)

lemma newSet_sliceFrom_length:
  "length (newSet (sliceFrom xs (- questionCooldownPeriod * 3))) \<le> 30"
proof -
  have "length (newSet (drop (length xs - 30) xs)) \<le> length (drop (length xs - 30) xs)"
    by (rule newSet_length_le)
  also have "\<dots> \<le> 30" by simp
  finally show ?thesis by (simp only: sliceFrom_minus30)
qed

lemma trackRecentlyUsedQuestions_bounded:
  assumes "cooldownBounded d"
  shows "cooldownBounded (trackRecentlyUsedQuestions d qs r)"
proof -
  let ?P = "\<lambda>entry :: string \<times> string list. int (length (snd entry)) \<le> questionCooldownPeriod * 6"
  let ?m0 = "recentlyUsedQuestions d"
  let ?m1 = "if map_of ?m0 r = None then AList.update r [] ?m0 else ?m0"
  let ?ins = "foldl setAdd (case map_of ?m1 r of None \<Rightarrow> [] | Some s \<Rightarrow> s) (map getQuestionId qs)"
  from assms have m0: "list_all ?P ?m0" by (simp add: cooldownBounded_def)
  then have m1: "list_all ?P ?m1"
    by (simp add: list_all_update questionCooldownPeriod_def)
  have keep: "int (length (newSet (sliceFrom ?ins (- questionCooldownPeriod * 3))))
                \<le> questionCooldownPeriod * 6"
  proof -
    have "length (newSet (sliceFrom ?ins (- questionCooldownPeriod * 3))) \<le> 30"
      by (rule newSet_sliceFrom_length)
    then show ?thesis unfolding questionCooldownPeriod_def by linarith
  qed
  show ?thesis
  proof (cases "int (length ?ins) > questionCooldownPeriod * 6")
    case True
    then have "recentlyUsedQuestions (trackRecentlyUsedQuestions d qs r) =
                 AList.update r (newSet (sliceFrom ?ins (- questionCooldownPeriod * 3))) ?m1"
      by (simp add: trackRecentlyUsedQuestions_def Let_def)
    with m1 keep show ?thesis
      by (simp add: cooldownBounded_def list_all_update)
  next
    case False
    then have "recentlyUsedQuestions (trackRecentlyUsedQuestions d qs r) = AList.update r ?ins ?m1"
      by (simp add: trackRecentlyUsedQuestions_def Let_def)
    with m1 False show ?thesis
      by (simp add: cooldownBounded_def list_all_update)
  qed
qed

lemma getBalancedQuestionMix_bounded:
  "cooldownBounded d \<Longrightarrow> cooldownBounded (fst (snd (getBalancedQuestionMix e d pos qs cnt)))"
  by (simp add: getBalancedQuestionMix_def Let_def case_prod_beta
      trackRecentlyUsedQuestions_bounded filterRecentlyUsedQuestions_bounded)

lemma clearRecentlyUsedQuestions_bounded:
  "cooldownBounded d \<Longrightarrow> cooldownBounded (clearRecentlyUsedQuestions d r)"
  by (simp add: clearRecentlyUsedQuestions_def cooldownBounded_def list_all_delete
      split: option.splits)

lemma track_prunes_to_thirty:
  assumes "distinct (cooldownSetOf d realm)"
    and "60 < length (foldl setAdd (cooldownSetOf d realm) (map getQuestionId questions))"
  shows "length (cooldownSetOf (trackRecentlyUsedQuestions d questions realm) realm) = 30"
proof -
  let ?ins = "foldl setAdd (cooldownSetOf d realm) (map getQuestionId questions)"
  have "distinct ?ins" using assms(1) by (rule foldl_setAdd_distinct)
  then have "newSet (drop (length ?ins - 30) ?ins) = drop (length ?ins - 30) ?ins"
    by (intro newSet_distinct) simp
  then have "cooldownSetOf (trackRecentlyUsedQuestions d questions realm) realm
               = drop (length ?ins - 30) ?ins"
    using assms(2) by (simp add: trackRecentlyUsedQuestions_set Let_def)
  then show ?thesis using assms(2) by simp
qed

text \<open>
  C10. Every public operation keeps the bound: if no realm's recently-used set has
  more than \<open>questionCooldownPeriod * 6 = 60\<close> identities before
  \<open>getRandomQuestions\<close> (with any arguments) or \<open>clearRecentlyUsedQuestions\<close>, none has
  afterwards; the freshly constructed database satisfies the bound. When the prune step of
  \<open>trackRecentlyUsedQuestions\<close> is triggered (the realm's set, a set with pairwise
  distinct members, has more than 60 identities after the insertion), it leaves exactly
  \<open>questionCooldownPeriod * 3 = 30\<close>.
\<close>

theorem cooldown_bound_invariant:
  "cooldownBounded getInstance
   \<and> (cooldownBounded d \<longrightarrow>
        cooldownBounded (fst (snd (getRandomQuestions e d pos realm countArg sid)))
        \<and> cooldownBounded (clearRecentlyUsedQuestions d r))
   \<and> (distinct (cooldownSetOf d' r')
       \<and> questionCooldownPeriod * 6
           < int (length (foldl setAdd (cooldownSetOf d' r') (map getQuestionId qs))) \<longrightarrow>
       int (length (cooldownSetOf (trackRecentlyUsedQuestions d' qs r') r'))
         = questionCooldownPeriod * 3)"
proof (intro conjI impI)
  show "cooldownBounded getInstance"
    by (simp add: cooldownBounded_def getInstance_def)
next
  assume "cooldownBounded d"
  then show "cooldownBounded (fst (snd (getRandomQuestions e d pos realm countArg sid)))"
    by (simp add: getRandomQuestions_db getBalancedQuestionMix_bounded)
next
  assume "cooldownBounded d"
  then show "cooldownBounded (clearRecentlyUsedQuestions d r)"
    by (rule clearRecentlyUsedQuestions_bounded)
next
  assume a: "distinct (cooldownSetOf d' r')
       \<and> questionCooldownPeriod * 6
           < int (length (foldl setAdd (cooldownSetOf d' r') (map getQuestionId qs)))"
  then have "60 < length (foldl setAdd (cooldownSetOf d' r') (map getQuestionId qs))"
    by (simp add: questionCooldownPeriod_def)
  with a have "length (cooldownSetOf (trackRecentlyUsedQuestions d' qs r') r') = 30"
    by (intro track_prunes_to_thirty) simp_all
  then show "int (length (cooldownSetOf (trackRecentlyUsedQuestions d' qs r') r'))
         = questionCooldownPeriod * 3"
    by (simp add: questionCooldownPeriod_def)
qed

subsection \<open>The prune step\<close>

lemma numberToString_0: "numberToString 0 = ''0''"
  by (simp add: numberToString_def natToString.simps)

lemma sixtyOne_ids:
  "map getQuestionId sixtyOneQuestions = map (\<lambda>k. replicate k CHR ''a'' @ ''-0'') [0..<61]"
  by (simp add: sixtyOneQuestions_def getQuestionId_def entry_def numberToString_0)

lemma sixtyOne_ids_distinct: "distinct (map getQuestionId sixtyOneQuestions)"
proof -
  have "inj (\<lambda>k. replicate k CHR ''a'' @ ''-0'')"
  proof (rule injI)
    fix x y :: nat
    assume "replicate x CHR ''a'' @ ''-0'' = replicate y CHR ''a'' @ ''-0''"
    then have "length (replicate x CHR ''a'') = length (replicate y CHR ''a'')" by simp
    then show "x = y" by simp
  qed
  then show ?thesis
    unfolding sixtyOne_ids by (simp add: distinct_map inj_on_def inj_def)
qed

lemma sixtyOne_inserted:
  "foldl setAdd (cooldownSetOf emptyDb r) (map getQuestionId sixtyOneQuestions)
     = map getQuestionId sixtyOneQuestions"
  using foldl_setAdd_fresh [of "[]" "map getQuestionId sixtyOneQuestions"] sixtyOne_ids_distinct
  by (simp add: cooldownSetOf_def emptyDb_def)

lemma sixtyOne_length: "length sixtyOneQuestions = 61"
  by (simp add: sixtyOneQuestions_def)

lemma sixtyOne_ids_length: "length (map getQuestionId sixtyOneQuestions) = 61"
  by (simp add: sixtyOne_length)

text \<open>
  C3 (as the code has it). After \<open>trackRecentlyUsedQuestions\<close> has inserted the selected
  questions' identities into the realm's set (a set: its members are pairwise distinct),
  the set is what the realm holds unless it has more than
  \<open>questionCooldownPeriod * 6 = 60\<close> members; then the realm holds its
  \<open>questionCooldownPeriod * 3 = 30\<close> most recently added members.
\<close>

theorem trackRecentlyUsedQuestions_prune:
  assumes "distinct (cooldownSetOf d realm)"
  shows "cooldownSetOf (trackRecentlyUsedQuestions d questions realm) realm =
     (let ins = foldl setAdd (cooldownSetOf d realm) (map getQuestionId questions)
      in if questionCooldownPeriod * 6 < int (length ins)
         then drop (length ins - nat (questionCooldownPeriod * 3)) ins
         else ins)"
proof -
  let ?ins = "foldl setAdd (cooldownSetOf d realm) (map getQuestionId questions)"
  have "distinct ?ins" using assms by (rule foldl_setAdd_distinct)
  then have "newSet (drop (length ?ins - 30) ?ins) = drop (length ?ins - 30) ?ins"
    by (intro newSet_distinct) simp
  then show ?thesis
    by (simp add: trackRecentlyUsedQuestions_set Let_def questionCooldownPeriod_def)
qed

theorem trackRecentlyUsedQuestions_prune_witness:
  "distinct (cooldownSetOf emptyDb ''test'')
   \<and> length (cooldownSetOf (trackRecentlyUsedQuestions emptyDb sixtyOneQuestions ''test'') ''test'') = 30"
proof -
  have h: "distinct (cooldownSetOf emptyDb ''test'')"
    by (simp add: cooldownSetOf_def emptyDb_def)
  from trackRecentlyUsedQuestions_prune [OF h, of sixtyOneQuestions]
  have "cooldownSetOf (trackRecentlyUsedQuestions emptyDb sixtyOneQuestions ''test'') ''test''
          = drop 31 (map getQuestionId sixtyOneQuestions)"
    unfolding sixtyOne_inserted Let_def sixtyOne_ids_length
    by (simp add: questionCooldownPeriod_def)
  then show ?thesis using h by (simp add: sixtyOne_length)
qed

text \<open>
  The claim as the specification words it keeps the
  \<open>questionCooldownPeriod * 3 * 6 = 180\<close> most recently added identities. With
  sixty-one identities inserted into an empty set that is all of them; the code keeps
  thirty.
\<close>

theorem trackRecentlyUsedQuestions_prune_counterexample:
  "questionCooldownPeriod * 6
     < int (length (foldl setAdd (cooldownSetOf emptyDb ''test'') (map getQuestionId sixtyOneQuestions)))
   \<and> length (sliceFrom (foldl setAdd (cooldownSetOf emptyDb ''test'')
                          (map getQuestionId sixtyOneQuestions))
               (- (questionCooldownPeriod * 3 * 6))) = 61
   \<and> length (cooldownSetOf (trackRecentlyUsedQuestions emptyDb sixtyOneQuestions ''test'') ''test'')
       = 30"
proof -
  have "cooldownSetOf (trackRecentlyUsedQuestions emptyDb sixtyOneQuestions ''test'') ''test''
          = newSet (drop 31 (map getQuestionId sixtyOneQuestions))"
    unfolding trackRecentlyUsedQuestions_set sixtyOne_inserted Let_def sixtyOne_ids_length
    by simp
  moreover have "newSet (drop 31 (map getQuestionId sixtyOneQuestions))
                   = drop 31 (map getQuestionId sixtyOneQuestions)"
    using sixtyOne_ids_distinct by (intro newSet_distinct) simp
  ultimately have "length (cooldownSetOf (trackRecentlyUsedQuestions emptyDb sixtyOneQuestions
                     ''test'') ''test'') = 30"
    by (simp add: sixtyOne_length)
  moreover have "length (sliceFrom (map getQuestionId sixtyOneQuestions)
                   (- (questionCooldownPeriod * 3 * 6))) = 61"
    by (simp add: sliceFrom_def Let_def questionCooldownPeriod_def sixtyOne_length)
  ultimately show ?thesis
    unfolding sixtyOne_inserted by (simp add: sixtyOne_length questionCooldownPeriod_def)
qed

theorem cooldown_bound_invariant_witness:
  "cooldownBounded getInstance
   \<and> cooldownBounded (fst (snd (getRandomQuestions zeroEnv getInstance 0 ''general'' (Some 2) None)))
   \<and> cooldownBounded (clearRecentlyUsedQuestions getInstance (Some ''general''))
   \<and> distinct (cooldownSetOf emptyDb ''test'')
   \<and> questionCooldownPeriod * 6
        < int (length (foldl setAdd (cooldownSetOf emptyDb ''test'')
                         (map getQuestionId sixtyOneQuestions)))
   \<and> int (length (cooldownSetOf (trackRecentlyUsedQuestions emptyDb sixtyOneQuestions ''test'')
                     ''test'')) = questionCooldownPeriod * 3"
proof -
  have h1: "cooldownBounded getInstance"
    by (simp add: cooldownBounded_def getInstance_def)
  have h2: "questionCooldownPeriod * 6
        < int (length (foldl setAdd (cooldownSetOf emptyDb ''test'')
                         (map getQuestionId sixtyOneQuestions)))"
    unfolding sixtyOne_inserted by (simp add: sixtyOne_length questionCooldownPeriod_def)
  have h3: "distinct (cooldownSetOf emptyDb ''test'')"
    by (simp add: cooldownSetOf_def emptyDb_def)
  note inv = cooldown_bound_invariant [of getInstance zeroEnv 0 "''general''" "Some 2" None
      "Some ''general''" emptyDb "''test''" sixtyOneQuestions]
  note kept = inv [THEN conjunct2, THEN conjunct1, THEN mp, OF h1]
  note pruned = inv [THEN conjunct2, THEN conjunct2, THEN mp, OF conjI [OF h3 h2]]
  show ?thesis
  proof (intro conjI)
    show "cooldownBounded getInstance" by (rule h1)
    show "cooldownBounded (fst (snd (getRandomQuestions zeroEnv getInstance 0 ''general''
                                       (Some 2) None)))"
      by (rule kept [THEN conjunct1])
    show "cooldownBounded (clearRecentlyUsedQuestions getInstance (Some ''general''))"
      by (rule kept [THEN conjunct2])
    show "distinct (cooldownSetOf emptyDb ''test'')" by (rule h3)
    show "questionCooldownPeriod * 6
        < int (length (foldl setAdd (cooldownSetOf emptyDb ''test'')
                         (map getQuestionId sixtyOneQuestions)))"
      by (rule h2)
    show "int (length (cooldownSetOf (trackRecentlyUsedQuestions emptyDb sixtyOneQuestions ''test'')
                     ''test'')) = questionCooldownPeriod * 3"
      by (rule pruned)
  qed
qed

subsection \<open>How many questions a call returns\<close>

lemma availableOf_length_le: "length (availableOf d corpus) \<le> length corpus"
proof -
  have "distinct (availableOf d corpus)"
    unfolding availableOf_def by (intro filterRecentlyUsedQuestions_distinct objects_distinct)
  then have "length (availableOf d corpus) \<le> length (objects corpus)"
    using availableOf_subset by (rule length_le_of_subset)
  then show ?thesis by (simp add: objects_def)
qed

lemma served_identities_distinct:
  assumes "distinct (map fst res)" and "set (map fst res) \<subseteq> {..<length corpus}"
    and "distinct (map getQuestionId corpus)"
  shows "distinct (map (servedIdentity corpus) res)"
proof -
  have "inj_on (\<lambda>i. getQuestionId (corpus ! i)) {..<length corpus}"
  proof (rule inj_onI)
    fix i j
    assume "i \<in> {..<length corpus}" "j \<in> {..<length corpus}"
      and "getQuestionId (corpus ! i) = getQuestionId (corpus ! j)"
    then have "map getQuestionId corpus ! i = map getQuestionId corpus ! j"
      and "i < length (map getQuestionId corpus)" and "j < length (map getQuestionId corpus)"
      by simp_all
    with assms(3) show "i = j" by (simp only: nth_eq_iff_index_eq)
  qed
  then have "inj_on (\<lambda>i. getQuestionId (corpus ! i)) (set (map fst res))"
    using assms(2) by (rule inj_on_subset)
  with assms(1) have "distinct (map (\<lambda>i. getQuestionId (corpus ! i)) (map fst res))"
    by (metis distinct_map)
  moreover have "map (\<lambda>i. getQuestionId (corpus ! i)) (map fst res) = map (servedIdentity corpus) res"
    by (simp add: servedIdentity_def)
  ultimately show ?thesis by (simp only:)
qed

text \<open>
  C1 (as the code has it). For every realm and every count \<open>n \<ge> 0\<close> that is at most
  the number of candidates the cooldown filter leaves of the realm's corpus after
  fallback (the whole corpus when fewer than six of its questions are off cooldown, else
  the questions off cooldown), \<open>getRandomQuestions\<close> returns exactly \<open>n\<close> questions,
  built from \<open>n\<close> different corpus entries; and when no two entries of the corpus have
  the same identity, the identities of the returned questions (question text and correct
  index before the options are shuffled, as \<open>getQuestionId\<close> computes them) are pairwise
  distinct.
\<close>

theorem getRandomQuestions_exact_count:
  assumes "0 \<le> n"
    and "nat n \<le> (if length (freshCandidates d (objects (realmQuestionsOf d realm))
                              (getCurrentRealm (realmQuestionsOf d realm))) < 6
                   then length (realmQuestionsOf d realm)
                   else length (freshCandidates d (objects (realmQuestionsOf d realm))
                                 (getCurrentRealm (realmQuestionsOf d realm))))"
  shows "length (fst (getRandomQuestions e d pos realm (Some n) sid)) = nat n
       \<and> distinct (map fst (fst (getRandomQuestions e d pos realm (Some n) sid)))
       \<and> set (map fst (fst (getRandomQuestions e d pos realm (Some n) sid)))
           \<subseteq> {..<length (realmQuestionsOf d realm)}
       \<and> (distinct (map getQuestionId (realmQuestionsOf d realm)) \<longrightarrow>
            distinct (map (servedIdentity (realmQuestionsOf d realm))
                       (fst (getRandomQuestions e d pos realm (Some n) sid))))"
proof -
  let ?res = "fst (getRandomQuestions e d pos realm (Some n) sid)"
  have len: "length ?res = min (nat n) (length (availableOf d (realmQuestionsOf d realm)))"
    using getRandomQuestions_sound(3) [of "Some n" e d pos realm sid] assms(1) by simp
  have d: "distinct (map fst ?res)" by (rule getRandomQuestions_sound(1))
  have r: "set (map fst ?res) \<subseteq> {..<length (realmQuestionsOf d realm)}"
    by (rule getRandomQuestions_sound(2))
  have ids: "distinct (map (servedIdentity (realmQuestionsOf d realm)) ?res)"
    if "distinct (map getQuestionId (realmQuestionsOf d realm))"
    using d r that by (rule served_identities_distinct)
  from assms(2) have "nat n \<le> length (availableOf d (realmQuestionsOf d realm))"
    by (simp only: availableOf_length)
  with len have "length ?res = nat n" by simp
  with d r ids show ?thesis by blast
qed

text \<open>
  C7 (as the code has it). If the realm's corpus after fallback has fewer questions than
  \<open>count\<close>, \<open>getRandomQuestions\<close> returns exactly as many questions as the cooldown
  filter leaves of the corpus (all of it when fewer than six candidates are off cooldown,
  else the candidates off cooldown), each built from a different corpus entry and none
  from anything else. The function has no failing branch.
\<close>

theorem getRandomQuestions_scarce:
  assumes "int (length (realmQuestionsOf d realm)) < cnt"
  shows "length (fst (getRandomQuestions e d pos realm (Some cnt) sid))
           = length (availableOf d (realmQuestionsOf d realm))
       \<and> length (availableOf d (realmQuestionsOf d realm))
           = (if length (freshCandidates d (objects (realmQuestionsOf d realm))
                          (getCurrentRealm (realmQuestionsOf d realm))) < 6
              then length (realmQuestionsOf d realm)
              else length (freshCandidates d (objects (realmQuestionsOf d realm))
                             (getCurrentRealm (realmQuestionsOf d realm))))
       \<and> distinct (map fst (fst (getRandomQuestions e d pos realm (Some cnt) sid)))
       \<and> set (map fst (fst (getRandomQuestions e d pos realm (Some cnt) sid)))
           \<subseteq> {..<length (realmQuestionsOf d realm)}"
proof -
  have av: "length (availableOf d (realmQuestionsOf d realm))
           = (if length (freshCandidates d (objects (realmQuestionsOf d realm))
                          (getCurrentRealm (realmQuestionsOf d realm))) < 6
              then length (realmQuestionsOf d realm)
              else length (freshCandidates d (objects (realmQuestionsOf d realm))
                             (getCurrentRealm (realmQuestionsOf d realm))))"
    by (rule availableOf_length)
  let ?res = "fst (getRandomQuestions e d pos realm (Some cnt) sid)"
  from assms have nn: "0 \<le> cnt" by simp
  have "length (availableOf d (realmQuestionsOf d realm)) \<le> length (realmQuestionsOf d realm)"
    by (rule availableOf_length_le)
  with assms have "length (availableOf d (realmQuestionsOf d realm)) \<le> nat cnt" by simp
  moreover have "length ?res = min (nat cnt) (length (availableOf d (realmQuestionsOf d realm)))"
    using getRandomQuestions_sound(3) [of "Some cnt" e d pos realm sid] nn by simp
  ultimately have "length ?res = length (availableOf d (realmQuestionsOf d realm))" by simp
  with av show ?thesis
    using getRandomQuestions_sound(1) [of e d pos realm "Some cnt" sid]
      getRandomQuestions_sound(2) [of e d pos realm "Some cnt" sid] by blast
qed

subsection \<open>Options of the returned questions\<close>

lemma returned_question_origin:
  assumes "(i, q') \<in> set (fst (getRandomQuestions e d pos realm countArg sid))"
  shows "\<exists>p. i < length (realmQuestionsOf d realm)
           \<and> (i, q') = fst (shuffleOptionsOf e p (i, realmQuestionsOf d realm ! i))"
proof -
  let ?corpus = "realmQuestionsOf d realm"
  let ?picks = "fst (getBalancedQuestionMix e d pos (objects ?corpus)
                       (case countArg of None \<Rightarrow> 6 | Some c \<Rightarrow> c))"
  from getRandomQuestions_fst [of e d pos realm countArg sid] obtain p1 p2 where
    r: "fst (getRandomQuestions e d pos realm countArg sid) =
          fst (advancedShuffle e p2 (fst (shuffleQuestionOptions e p1 ?picks)) sid)"
    by blast
  have "set (fst (advancedShuffle e p2 (fst (shuffleQuestionOptions e p1 ?picks)) sid))
          = set (fst (shuffleQuestionOptions e p1 ?picks))"
    using advancedShuffle_mset by (rule mset_eq_setD)
  with assms r have "(i, q') \<in> set (fst (shuffleQuestionOptions e p1 ?picks))" by simp
  from shuffleQuestionOptions_elem [OF this] obtain obj p where
    obj: "obj \<in> set ?picks" and eq: "(i, q') = fst (shuffleOptionsOf e p obj)" by blast
  from obj have "obj \<in> set (objects ?corpus)"
    using getBalancedQuestionMix_sound(2) [of e d pos ?corpus] availableOf_subset by blast
  then have o: "fst obj < length ?corpus \<and> snd obj = ?corpus ! fst obj"
    using in_objects_iff [of "fst obj" "snd obj" ?corpus] by simp
  from eq have "i = fst obj"
    using shuffleOptionsOf_fst [of e p obj] by (metis fst_conv)
  with o eq have "i < length ?corpus \<and> (i, q') = fst (shuffleOptionsOf e p (i, ?corpus ! i))"
    by (cases obj) simp
  then show ?thesis by blast
qed

text \<open>
  C8. Every question that \<open>getRandomQuestions\<close> returns is built from an entry of the
  realm's corpus; when that entry has a valid correct index
  (\<open>0 \<le> correct < len(options)\<close>), the returned question has as many options as the
  entry, its correct index is valid, and the option at that index has the text of the
  option that was correct before shuffling.
\<close>

theorem getRandomQuestions_correct_option:
  assumes "(i, q') \<in> set (fst (getRandomQuestions e d pos realm countArg sid))"
    and "0 \<le> correct (realmQuestionsOf d realm ! i)"
    and "correct (realmQuestionsOf d realm ! i)
           < int (length (options (realmQuestionsOf d realm ! i)))"
  shows "i < length (realmQuestionsOf d realm)
       \<and> length (options q') = length (options (realmQuestionsOf d realm ! i))
       \<and> 0 \<le> correct q' \<and> correct q' < int (length (options q'))
       \<and> options q' ! nat (correct q')
           = options (realmQuestionsOf d realm ! i) ! nat (correct (realmQuestionsOf d realm ! i))"
proof -
  let ?q = "realmQuestionsOf d realm ! i"
  from returned_question_origin [OF assms(1)] obtain p where
    i: "i < length (realmQuestionsOf d realm)"
    and eq: "(i, q') = fst (shuffleOptionsOf e p (i, ?q))" by blast
  from eq have q': "q' = snd (fst (shuffleOptionsOf e p (i, ?q)))" by (metis snd_conv)
  have "mset (options q') = mset (options ?q)"
    unfolding q' using shuffleOptionsOf_options [of e p "(i, ?q)"] by simp
  then have len: "length (options q') = length (options ?q)" by (rule mset_eq_length)
  from shuffleOptionsOf_correct [of "(i, ?q)" e p] assms(2,3)
  have "0 \<le> correct q' \<and> correct q' < int (length (options q'))
         \<and> options q' ! nat (correct q') = options ?q ! nat (correct ?q)"
    unfolding q' by simp
  with i len show ?thesis by simp
qed

subsection \<open>The floor of the cooldown filter\<close>

text \<open>
  C6 (as the code has it). In \<open>filterRecentlyUsedQuestions\<close>, if removing the realm's
  recently served identities leaves fewer than 6 candidates (a fixed floor, the default
  batch size; the function does not receive the requested count), the realm's cooldown
  set is replaced by an empty set, the sets of the other realms and the bank are
  untouched, and the full candidate list is returned; otherwise the filtered list is
  returned and the database is unchanged.
\<close>

theorem filterRecentlyUsedQuestions_floor:
  "(length (freshCandidates d questions realm) < 6 \<longrightarrow>
      fst (filterRecentlyUsedQuestions d questions realm) = questions
      \<and> map_of (recentlyUsedQuestions (snd (filterRecentlyUsedQuestions d questions realm))) realm
          = Some []
      \<and> (\<forall>r. r \<noteq> realm \<longrightarrow>
            map_of (recentlyUsedQuestions (snd (filterRecentlyUsedQuestions d questions realm))) r
              = map_of (recentlyUsedQuestions d) r)
      \<and> questionBank (snd (filterRecentlyUsedQuestions d questions realm)) = questionBank d)
   \<and> (\<not> length (freshCandidates d questions realm) < 6 \<longrightarrow>
      fst (filterRecentlyUsedQuestions d questions realm) = freshCandidates d questions realm
      \<and> snd (filterRecentlyUsedQuestions d questions realm) = d)"
  by (simp add: filterRecentlyUsedQuestions_cases update_conv')

subsection \<open>The realm \<open>general\<close> after one call\<close>

lemma general_corpus:
  "realmQuestionsOf getInstance ''general'' = getGeneralRedditQuestions @ generateDynamicGeneralQuestions"
  by (simp add: realmQuestionsOf_def getInstance_def initializeQuestionBank_def
      normalizeRealmName_def toLowerCase_def toLowerChar_def
      getGeneralRedditQuestions_def generateDynamicGeneralQuestions_def)

lemma general_length: "length (realmQuestionsOf getInstance ''general'') = 8"
  unfolding general_corpus
  by (simp add: getGeneralRedditQuestions_def generateDynamicGeneralQuestions_def)

lemma general_key: "getCurrentRealm (realmQuestionsOf getInstance ''general'') = ''reddit''"
  unfolding general_corpus
  by (simp add: getGeneralRedditQuestions_def generateDynamicGeneralQuestions_def
      getCurrentRealm_def entry_def toLowerCase_def toLowerChar_def)

lemma general_first_call_cooldown:
  "recentlyUsedQuestions
     (fst (snd (getBalancedQuestionMix zeroEnv getInstance 0
                  (objects (getGeneralRedditQuestions @ generateDynamicGeneralQuestions)) 2)))
   = [(''reddit'', [''What is the purpose of upvoting on Reddit?-3'', ''What is a subreddit?-1''])]"
  by code_simp

lemma afterFirstGeneralCall_cooldown:
  "recentlyUsedQuestions afterFirstGeneralCall
   = [(''reddit'', [''What is the purpose of upvoting on Reddit?-3'', ''What is a subreddit?-1''])]"
  unfolding afterFirstGeneralCall_def firstGeneralCall_def getRandomQuestions_db general_corpus
  using general_first_call_cooldown by simp

lemma afterFirstGeneralCall_corpus:
  "realmQuestionsOf afterFirstGeneralCall realm = realmQuestionsOf getInstance realm"
  unfolding afterFirstGeneralCall_def firstGeneralCall_def
  by (intro realmQuestionsOf_bank getRandomQuestions_bank)

lemma general_fresh_after_first_call:
  "length (filter (\<lambda>q. getQuestionId (snd q)
                     \<notin> set [''What is the purpose of upvoting on Reddit?-3'',
                              ''What is a subreddit?-1''])
             (objects (getGeneralRedditQuestions @ generateDynamicGeneralQuestions))) = 6"
  by code_simp

lemma clear_general_keeps_reddit:
  "recentlyUsedQuestions (clearRecentlyUsedQuestions afterFirstGeneralCall (Some ''general''))
   = recentlyUsedQuestions afterFirstGeneralCall"
  by (simp add: clearRecentlyUsedQuestions_def afterFirstGeneralCall_cooldown)

lemma availableOf_after_first_call:
  assumes "recentlyUsedQuestions d = recentlyUsedQuestions afterFirstGeneralCall"
  shows "length (availableOf d (realmQuestionsOf getInstance ''general'')) = 6"
proof -
  have "cooldownSetOf d ''reddit''
          = [''What is the purpose of upvoting on Reddit?-3'', ''What is a subreddit?-1'']"
    by (simp add: cooldownSetOf_def assms afterFirstGeneralCall_cooldown)
  then have "length (freshCandidates d (objects (realmQuestionsOf getInstance ''general''))
                       (getCurrentRealm (realmQuestionsOf getInstance ''general''))) = 6"
    unfolding general_key unfolding general_corpus freshCandidates_def
    using general_fresh_after_first_call by simp
  then show ?thesis by (simp add: availableOf_cases)
qed

subsection \<open>Counterexamples to the exact count\<close>

text \<open>
  C1, as the specification words it, fails twice. After one call for two questions of
  \<open>general\<close> (eight questions), a call for eight returns six: the two served identities
  are on cooldown and six candidates are enough for the filter not to reset. And on the
  fresh database a call for all twenty questions of \<open>science\<close> returns the question about
  the chemical symbol for gold twice, under the same identity: the corpus has it in
  \<open>COMPREHENSIVE_QUESTIONS.science\<close> and in \<open>generateDynamicScienceQuestions\<close>.
\<close>

lemma science_corpus:
  "realmQuestionsOf getInstance ''science''
     = COMPREHENSIVE_QUESTIONS_science @ generateAdditionalScienceQuestions
         @ generateDynamicScienceQuestions"
  by (simp add: realmQuestionsOf_def getInstance_def initializeQuestionBank_def
      normalizeRealmName_def toLowerCase_def toLowerChar_def
      COMPREHENSIVE_QUESTIONS_science_def)

lemma science_length: "length (realmQuestionsOf getInstance ''science'') = 20"
  unfolding science_corpus
  by (simp add: COMPREHENSIVE_QUESTIONS_science_def generateAdditionalScienceQuestions_def
      generateDynamicScienceQuestions_def)

lemma science_gold_twice:
  "getQuestionId (realmQuestionsOf getInstance ''science'' ! 6)
     = getQuestionId (realmQuestionsOf getInstance ''science'' ! 17)"
  unfolding science_corpus
  by (simp add: COMPREHENSIVE_QUESTIONS_science_def generateAdditionalScienceQuestions_def
      generateDynamicScienceQuestions_def getQuestionId_def entry_def)

lemma cooldownSetOf_getInstance: "cooldownSetOf getInstance r = []"
  by (simp add: cooldownSetOf_def getInstance_def)

lemma full_selection:
  assumes "distinct (map fst res)" and "set (map fst res) \<subseteq> {..<m}" and "length res = m"
  shows "set (map fst res) = {..<m}"
proof -
  have "card (set (map fst res)) = length (map fst res)"
    using assms(1) by (rule distinct_card)
  then have "card (set (map fst res)) = card {..<m}" using assms(3) by simp
  with assms(2) show ?thesis by (intro card_subset_eq) simp_all
qed

lemma duplicate_identity_served:
  assumes "set (map fst res) = {..<length corpus}"
    and "i < length corpus" and "j < length corpus" and "i \<noteq> j"
    and "getQuestionId (corpus ! i) = getQuestionId (corpus ! j)"
  shows "\<not> distinct (map (servedIdentity corpus) res)"
proof
  assume "distinct (map (servedIdentity corpus) res)"
  then have inj: "inj_on (servedIdentity corpus) (set res)" by (simp add: distinct_map)
  from assms(1,2) have "i \<in> fst ` set res" by simp
  then obtain a where a: "a \<in> set res" "fst a = i" by auto
  from assms(1,3) have "j \<in> fst ` set res" by simp
  then obtain b where b: "b \<in> set res" "fst b = j" by auto
  from a b assms(5) have "servedIdentity corpus a = servedIdentity corpus b"
    by (simp add: servedIdentity_def)
  with inj a b have "a = b" by (simp add: inj_on_def)
  with a b assms(4) show False by simp
qed

theorem getRandomQuestions_exact_count_counterexample:
  "(8 \<le> length (realmQuestionsOf afterFirstGeneralCall ''general'')
    \<and> length (fst (getRandomQuestions zeroEnv afterFirstGeneralCall (snd (snd firstGeneralCall))
                      ''general'' (Some 8) None)) = 6)
   \<and> (20 \<le> length (realmQuestionsOf getInstance ''science'')
    \<and> \<not> distinct (map (servedIdentity (realmQuestionsOf getInstance ''science''))
                      (fst (getRandomQuestions zeroEnv getInstance 0 ''science'' (Some 20) None))))"
proof -
  let ?sci = "realmQuestionsOf getInstance ''science''"
  let ?res = "fst (getRandomQuestions zeroEnv getInstance 0 ''science'' (Some 20) None)"
  have "length (availableOf afterFirstGeneralCall (realmQuestionsOf getInstance ''general'')) = 6"
    by (rule availableOf_after_first_call) simp
  then have a: "length (fst (getRandomQuestions zeroEnv afterFirstGeneralCall
                   (snd (snd firstGeneralCall)) ''general'' (Some 8) None)) = 6"
    using getRandomQuestions_sound(3) [of "Some 8" zeroEnv afterFirstGeneralCall
        "snd (snd firstGeneralCall)" "''general''" None]
    by (simp add: afterFirstGeneralCall_corpus)
  have "availableOf getInstance ?sci = objects ?sci"
    by (rule availableOf_fresh) (rule cooldownSetOf_getInstance)
  then have "length (availableOf getInstance ?sci) = 20"
    by (simp add: objects_def science_length)
  then have "length ?res = 20"
    using getRandomQuestions_sound(3) [of "Some 20" zeroEnv getInstance 0 "''science''" None]
    by simp
  then have "set (map fst ?res) = {..<length ?sci}"
    using getRandomQuestions_sound(1,2) [of zeroEnv getInstance 0 "''science''" "Some 20" None]
    by (intro full_selection) (simp_all add: science_length)
  then have b: "\<not> distinct (map (servedIdentity ?sci) ?res)"
    by (rule duplicate_identity_served [where i = 6 and j = 17])
      (simp_all add: science_length science_gold_twice)
  from a b show ?thesis
    by (simp add: afterFirstGeneralCall_corpus general_length science_length)
qed

text \<open>
  C7, as the specification words it, fails in the same state: the corpus of \<open>general\<close>
  has eight questions, fewer than the nine asked for, and six are returned.
\<close>

theorem getRandomQuestions_scarce_counterexample:
  "int (length (realmQuestionsOf afterFirstGeneralCall ''general'')) < 9
   \<and> length (realmQuestionsOf afterFirstGeneralCall ''general'') = 8
   \<and> length (fst (getRandomQuestions zeroEnv afterFirstGeneralCall (snd (snd firstGeneralCall))
                     ''general'' (Some 9) None)) = 6"
proof -
  have "length (availableOf afterFirstGeneralCall (realmQuestionsOf getInstance ''general'')) = 6"
    by (rule availableOf_after_first_call) simp
  then have "length (fst (getRandomQuestions zeroEnv afterFirstGeneralCall
                   (snd (snd firstGeneralCall)) ''general'' (Some 9) None)) = 6"
    using getRandomQuestions_sound(3) [of "Some 9" zeroEnv afterFirstGeneralCall
        "snd (snd firstGeneralCall)" "''general''" None]
    by (simp add: afterFirstGeneralCall_corpus)
  then show ?thesis by (simp add: afterFirstGeneralCall_corpus general_length)
qed

text \<open>
  C5. \<open>clearRecentlyUsedQuestions('general')\<close> deletes the key \<open>general\<close>, but the set
  that \<open>getRandomQuestions('general', ...)\<close> consults is kept under the lower-cased topic
  of the realm's first question, \<open>reddit\<close>. After one call for two questions and the
  clearing, that set still holds the two served identities, and the next call finds six of
  the eight candidates.
\<close>

theorem clearRecentlyUsedQuestions_misses_general:
  "cooldownSetOf (clearRecentlyUsedQuestions afterFirstGeneralCall (Some ''general''))
     (getCurrentRealm (realmQuestionsOf
        (clearRecentlyUsedQuestions afterFirstGeneralCall (Some ''general'')) ''general''))
     = [''What is the purpose of upvoting on Reddit?-3'', ''What is a subreddit?-1'']
   \<and> length (realmQuestionsOf
        (clearRecentlyUsedQuestions afterFirstGeneralCall (Some ''general'')) ''general'') = 8
   \<and> length (availableOf (clearRecentlyUsedQuestions afterFirstGeneralCall (Some ''general''))
        (realmQuestionsOf
           (clearRecentlyUsedQuestions afterFirstGeneralCall (Some ''general'')) ''general'')) = 6"
proof -
  let ?d = "clearRecentlyUsedQuestions afterFirstGeneralCall (Some ''general'')"
  have "questionBank ?d = questionBank afterFirstGeneralCall"
    by (simp add: clearRecentlyUsedQuestions_def)
  then have c: "realmQuestionsOf ?d ''general'' = realmQuestionsOf getInstance ''general''"
    using realmQuestionsOf_bank [of ?d afterFirstGeneralCall] afterFirstGeneralCall_corpus
    by simp
  have s: "cooldownSetOf ?d ''reddit''
          = [''What is the purpose of upvoting on Reddit?-3'', ''What is a subreddit?-1'']"
    by (simp add: cooldownSetOf_def clear_general_keeps_reddit afterFirstGeneralCall_cooldown)
  have "length (availableOf ?d (realmQuestionsOf getInstance ''general'')) = 6"
    by (rule availableOf_after_first_call) (rule clear_general_keeps_reddit)
  with s show ?thesis unfolding c general_key by (simp add: general_length)
qed

subsection \<open>Instances\<close>

lemma general_ids_distinct:
  "distinct (map getQuestionId (realmQuestionsOf getInstance ''general''))"
  unfolding general_corpus by code_simp

theorem getRandomQuestions_exact_count_witness:
  "0 \<le> (2::int)
   \<and> nat 2 \<le> (if length (freshCandidates getInstance
                              (objects (realmQuestionsOf getInstance ''general''))
                              (getCurrentRealm (realmQuestionsOf getInstance ''general''))) < 6
                then length (realmQuestionsOf getInstance ''general'')
                else length (freshCandidates getInstance
                               (objects (realmQuestionsOf getInstance ''general''))
                               (getCurrentRealm (realmQuestionsOf getInstance ''general''))))
   \<and> distinct (map getQuestionId (realmQuestionsOf getInstance ''general''))
   \<and> length (fst (getRandomQuestions zeroEnv getInstance 0 ''general'' (Some 2) None)) = nat 2
   \<and> distinct (map fst (fst (getRandomQuestions zeroEnv getInstance 0 ''general'' (Some 2) None)))
   \<and> distinct (map (servedIdentity (realmQuestionsOf getInstance ''general''))
                 (fst (getRandomQuestions zeroEnv getInstance 0 ''general'' (Some 2) None)))"
proof -
  have h1: "0 \<le> (2::int)" by simp
  have "freshCandidates getInstance (objects (realmQuestionsOf getInstance ''general''))
          (getCurrentRealm (realmQuestionsOf getInstance ''general''))
        = objects (realmQuestionsOf getInstance ''general'')"
    by (rule freshCandidates_empty) (rule cooldownSetOf_getInstance)
  then have h2: "nat 2 \<le> (if length (freshCandidates getInstance
                              (objects (realmQuestionsOf getInstance ''general''))
                              (getCurrentRealm (realmQuestionsOf getInstance ''general''))) < 6
                then length (realmQuestionsOf getInstance ''general'')
                else length (freshCandidates getInstance
                               (objects (realmQuestionsOf getInstance ''general''))
                               (getCurrentRealm (realmQuestionsOf getInstance ''general''))))"
    by (simp add: objects_def general_length)
  note h3 = general_ids_distinct
  note res = getRandomQuestions_exact_count [OF h1 h2, of zeroEnv 0 None]
  show ?thesis
  proof (intro conjI)
    show "0 \<le> (2::int)" by (rule h1)
    show "nat 2 \<le> (if length (freshCandidates getInstance
                              (objects (realmQuestionsOf getInstance ''general''))
                              (getCurrentRealm (realmQuestionsOf getInstance ''general''))) < 6
                then length (realmQuestionsOf getInstance ''general'')
                else length (freshCandidates getInstance
                               (objects (realmQuestionsOf getInstance ''general''))
                               (getCurrentRealm (realmQuestionsOf getInstance ''general''))))"
      by (rule h2)
    show "distinct (map getQuestionId (realmQuestionsOf getInstance ''general''))" by (rule h3)
    show "length (fst (getRandomQuestions zeroEnv getInstance 0 ''general'' (Some 2) None)) = nat 2"
      by (rule res [THEN conjunct1])
    show "distinct (map fst (fst (getRandomQuestions zeroEnv getInstance 0 ''general'' (Some 2)
                                    None)))"
      by (rule res [THEN conjunct2, THEN conjunct1])
    show "distinct (map (servedIdentity (realmQuestionsOf getInstance ''general''))
                 (fst (getRandomQuestions zeroEnv getInstance 0 ''general'' (Some 2) None)))"
      by (rule res [THEN conjunct2, THEN conjunct2, THEN conjunct2, THEN mp, OF h3])
  qed
qed

theorem getRandomQuestions_scarce_witness:
  "int (length (realmQuestionsOf getInstance ''general'')) < 9
   \<and> length (fst (getRandomQuestions zeroEnv getInstance 0 ''general'' (Some 9) None))
       = length (availableOf getInstance (realmQuestionsOf getInstance ''general''))
   \<and> length (availableOf getInstance (realmQuestionsOf getInstance ''general'')) = 8
   \<and> distinct (map fst (fst (getRandomQuestions zeroEnv getInstance 0 ''general'' (Some 9) None)))"
proof -
  have h: "int (length (realmQuestionsOf getInstance ''general'')) < 9"
    by (simp add: general_length)
  note res = getRandomQuestions_scarce [OF h, of zeroEnv 0 None]
  have "freshCandidates getInstance (objects (realmQuestionsOf getInstance ''general''))
          (getCurrentRealm (realmQuestionsOf getInstance ''general''))
        = objects (realmQuestionsOf getInstance ''general'')"
    by (rule freshCandidates_empty) (rule cooldownSetOf_getInstance)
  with res [THEN conjunct2, THEN conjunct1]
  have eight: "length (availableOf getInstance (realmQuestionsOf getInstance ''general'')) = 8"
    by (simp add: objects_def general_length)
  show ?thesis
  proof (intro conjI)
    show "int (length (realmQuestionsOf getInstance ''general'')) < 9" by (rule h)
    show "length (fst (getRandomQuestions zeroEnv getInstance 0 ''general'' (Some 9) None))
       = length (availableOf getInstance (realmQuestionsOf getInstance ''general''))"
      by (rule res [THEN conjunct1])
    show "length (availableOf getInstance (realmQuestionsOf getInstance ''general'')) = 8"
      by (rule eight)
    show "distinct (map fst (fst (getRandomQuestions zeroEnv getInstance 0 ''general'' (Some 9)
                                    None)))"
      by (rule res [THEN conjunct2, THEN conjunct2, THEN conjunct1])
  qed
qed

lemma oneQuestion_call:
  "fst (getRandomQuestions zeroEnv oneQuestionDb 0 ''test'' (Some 1) None)
     = [(0, \<lparr>question = ''Pick b'', options = [''b'', ''a''], correct = 0, difficulty = Easy,
              topic = ''Test'', source = Some ''test'', originalOrder = Some False\<rparr>)]"
  by code_simp

lemma oneQuestion_corpus:
  "realmQuestionsOf oneQuestionDb ''test'' = [entry ''Pick b'' [''a'', ''b''] 1 Easy ''Test'' ''test'']"
  by (simp add: realmQuestionsOf_def oneQuestionDb_def normalizeRealmName_def toLowerCase_def
      toLowerChar_def)

theorem getRandomQuestions_correct_option_witness:
  "(0, \<lparr>question = ''Pick b'', options = [''b'', ''a''], correct = 0, difficulty = Easy,
         topic = ''Test'', source = Some ''test'', originalOrder = Some False\<rparr>)
     \<in> set (fst (getRandomQuestions zeroEnv oneQuestionDb 0 ''test'' (Some 1) None))
   \<and> 0 \<le> correct (realmQuestionsOf oneQuestionDb ''test'' ! 0)
   \<and> correct (realmQuestionsOf oneQuestionDb ''test'' ! 0)
       < int (length (options (realmQuestionsOf oneQuestionDb ''test'' ! 0)))
   \<and> [''b'', ''a''] ! nat 0 = options (realmQuestionsOf oneQuestionDb ''test'' ! 0)
        ! nat (correct (realmQuestionsOf oneQuestionDb ''test'' ! 0))"
proof -
  let ?q' = "\<lparr>question = ''Pick b'', options = [''b'', ''a''], correct = 0, difficulty = Easy,
         topic = ''Test'', source = Some ''test'', originalOrder = Some False\<rparr>"
  have h1: "(0, ?q') \<in> set (fst (getRandomQuestions zeroEnv oneQuestionDb 0 ''test'' (Some 1) None))"
    unfolding oneQuestion_call by simp
  have h2: "0 \<le> correct (realmQuestionsOf oneQuestionDb ''test'' ! 0)"
    unfolding oneQuestion_corpus by (simp add: entry_def)
  have h3: "correct (realmQuestionsOf oneQuestionDb ''test'' ! 0)
       < int (length (options (realmQuestionsOf oneQuestionDb ''test'' ! 0)))"
    unfolding oneQuestion_corpus by (simp add: entry_def)
  from getRandomQuestions_correct_option [OF h1 h2 h3] h1 h2 h3
  show ?thesis by simp
qed

lemma twin_fresh: "length (freshCandidates emptyDb (objects [twinQuestion]) ''test'') = 1"
  by (simp add: freshCandidates_def cooldownSetOf_def emptyDb_def objects_def)

lemma general_fresh_six:
  "length (freshCandidates afterFirstGeneralCall (objects (realmQuestionsOf getInstance ''general''))
             ''reddit'') = 6"
proof -
  have "cooldownSetOf afterFirstGeneralCall ''reddit''
          = [''What is the purpose of upvoting on Reddit?-3'', ''What is a subreddit?-1'']"
    by (simp add: cooldownSetOf_def afterFirstGeneralCall_cooldown)
  then show ?thesis
    unfolding general_corpus freshCandidates_def
    using general_fresh_after_first_call by simp
qed

theorem filterRecentlyUsedQuestions_floor_witness:
  "(length (freshCandidates emptyDb (objects [twinQuestion]) ''test'') < 6
    \<and> fst (filterRecentlyUsedQuestions emptyDb (objects [twinQuestion]) ''test'')
         = objects [twinQuestion]
    \<and> map_of (recentlyUsedQuestions
                 (snd (filterRecentlyUsedQuestions emptyDb (objects [twinQuestion]) ''test'')))
         ''test'' = Some [])
   \<and> (\<not> length (freshCandidates afterFirstGeneralCall
                    (objects (realmQuestionsOf getInstance ''general'')) ''reddit'') < 6
    \<and> fst (filterRecentlyUsedQuestions afterFirstGeneralCall
              (objects (realmQuestionsOf getInstance ''general'')) ''reddit'')
         = freshCandidates afterFirstGeneralCall
             (objects (realmQuestionsOf getInstance ''general'')) ''reddit''
    \<and> snd (filterRecentlyUsedQuestions afterFirstGeneralCall
              (objects (realmQuestionsOf getInstance ''general'')) ''reddit'')
         = afterFirstGeneralCall)"
proof -
  have h1: "length (freshCandidates emptyDb (objects [twinQuestion]) ''test'') < 6"
    by (simp add: twin_fresh)
  have h2: "\<not> length (freshCandidates afterFirstGeneralCall
                    (objects (realmQuestionsOf getInstance ''general'')) ''reddit'') < 6"
    by (simp add: general_fresh_six)
  note below = filterRecentlyUsedQuestions_floor [of emptyDb "objects [twinQuestion]" "''test''",
      THEN conjunct1, THEN mp, OF h1]
  note above = filterRecentlyUsedQuestions_floor [of afterFirstGeneralCall
      "objects (realmQuestionsOf getInstance ''general'')" "''reddit''",
      THEN conjunct2, THEN mp, OF h2]
  show ?thesis
  proof (intro conjI)
    show "length (freshCandidates emptyDb (objects [twinQuestion]) ''test'') < 6" by (rule h1)
    show "fst (filterRecentlyUsedQuestions emptyDb (objects [twinQuestion]) ''test'')
            = objects [twinQuestion]"
      by (rule below [THEN conjunct1])
    show "map_of (recentlyUsedQuestions
                 (snd (filterRecentlyUsedQuestions emptyDb (objects [twinQuestion]) ''test'')))
         ''test'' = Some []"
      by (rule below [THEN conjunct2, THEN conjunct1])
    show "\<not> length (freshCandidates afterFirstGeneralCall
                    (objects (realmQuestionsOf getInstance ''general'')) ''reddit'') < 6"
      by (rule h2)
    show "fst (filterRecentlyUsedQuestions afterFirstGeneralCall
              (objects (realmQuestionsOf getInstance ''general'')) ''reddit'')
         = freshCandidates afterFirstGeneralCall
             (objects (realmQuestionsOf getInstance ''general'')) ''reddit''"
      by (rule above [THEN conjunct1])
    show "snd (filterRecentlyUsedQuestions afterFirstGeneralCall
              (objects (realmQuestionsOf getInstance ''general'')) ''reddit'')
         = afterFirstGeneralCall"
      by (rule above [THEN conjunct2])
  qed
qed

text \<open>
  C6, with the floor read as the requested count, fails: in the call for eight questions
  of \<open>general\<close> after the first call, the filter is applied under the key \<open>reddit\<close> and
  leaves six candidates, fewer than the eight requested; the cooldown set is not cleared
  and the six filtered candidates are returned, not the full list of eight, so the call
  selects six questions.
\<close>

theorem filterRecentlyUsedQuestions_floor_counterexample:
  "getCurrentRealm (realmQuestionsOf afterFirstGeneralCall ''general'') = ''reddit''
   \<and> int (length (freshCandidates afterFirstGeneralCall
                     (objects (realmQuestionsOf afterFirstGeneralCall ''general'')) ''reddit'')) < 8
   \<and> length (fst (filterRecentlyUsedQuestions afterFirstGeneralCall
                     (objects (realmQuestionsOf afterFirstGeneralCall ''general'')) ''reddit'')) = 6
   \<and> length (objects (realmQuestionsOf afterFirstGeneralCall ''general'')) = 8
   \<and> cooldownSetOf (snd (filterRecentlyUsedQuestions afterFirstGeneralCall
                           (objects (realmQuestionsOf afterFirstGeneralCall ''general'')) ''reddit''))
        ''reddit''
       = [''What is the purpose of upvoting on Reddit?-3'', ''What is a subreddit?-1'']
   \<and> length (fst (getBalancedQuestionMix zeroEnv afterFirstGeneralCall 0
                     (objects (realmQuestionsOf afterFirstGeneralCall ''general'')) 8)) = 6"
proof -
  let ?qs = "objects (realmQuestionsOf getInstance ''general'')"
  have six: "length (freshCandidates afterFirstGeneralCall ?qs ''reddit'') = 6"
    by (rule general_fresh_six)
  then have f: "filterRecentlyUsedQuestions afterFirstGeneralCall ?qs ''reddit''
                  = (freshCandidates afterFirstGeneralCall ?qs ''reddit'', afterFirstGeneralCall)"
    by (simp add: filterRecentlyUsedQuestions_cases)
  have s: "cooldownSetOf afterFirstGeneralCall ''reddit''
          = [''What is the purpose of upvoting on Reddit?-3'', ''What is a subreddit?-1'']"
    by (simp add: cooldownSetOf_def afterFirstGeneralCall_cooldown)
  have "length (availableOf afterFirstGeneralCall (realmQuestionsOf getInstance ''general'')) = 6"
    by (rule availableOf_after_first_call) simp
  then have m: "length (fst (getBalancedQuestionMix zeroEnv afterFirstGeneralCall 0 ?qs 8)) = 6"
    using getBalancedQuestionMix_sound(3) [of 8 zeroEnv afterFirstGeneralCall 0
        "realmQuestionsOf getInstance ''general''"] by simp
  show ?thesis
    unfolding afterFirstGeneralCall_corpus general_key f
    using six s m by (simp add: objects_def general_length)
qed

subsection \<open>The relocated correct index\<close>

lemma map_swap:
  "j < length xs \<Longrightarrow> i < length xs \<Longrightarrow> map f (swap i j xs) = swap i j (map f xs)"
  by (simp add: swap_def map_update)

lemma fisherYates_map:
  "i < length xs \<or> i = 0 \<Longrightarrow>
     map f (fst (fisherYates rnd pos i xs)) = fst (fisherYates rnd pos i (map f xs))"
proof (induction i arbitrary: pos xs)
  case 0
  then show ?case by simp
next
  case (Suc i)
  from Suc.prems have lt: "Suc i < length xs" by auto
  let ?j = "randomIndex (rnd pos) (Suc i + 1)"
  have j: "?j < length xs"
    using randomIndex_less [of "Suc i + 1" "rnd pos"] lt by simp
  have "map f (fst (fisherYates rnd (Suc pos) i (swap (Suc i) ?j xs)))
          = fst (fisherYates rnd (Suc pos) i (map f (swap (Suc i) ?j xs)))"
    using lt by (intro Suc.IH) (simp add: length_swap)
  also have "map f (swap (Suc i) ?j xs) = swap (Suc i) ?j (map f xs)"
    using j lt by (rule map_swap)
  finally show ?case by (simp add: Let_def)
qed

lemma shuffleArray_map:
  "map f (fst (shuffleArray e pos xs)) = fst (shuffleArray e pos (map f xs))"
  unfolding shuffleArray_def
  using fisherYates_map [of "length xs - 1" xs f "mathRandom e" pos]
  by (cases xs) auto

lemma in_enumerate:
  "(i, x) \<in> set (zip [0..<length xs] xs) \<Longrightarrow> i < length xs \<and> x = xs ! i"
  by (auto simp: in_set_zip)

lemma shuffleArray_nth:
  assumes "k < length xs"
  shows "shuffledPositions e pos xs ! k < length xs
         \<and> fst (shuffleArray e pos xs) ! k = xs ! (shuffledPositions e pos xs ! k)"
proof -
  let ?t = "fst (shuffleArray e pos (zip [0..<length xs] xs))"
  have len: "length ?t = length xs" by (simp add: shuffleArray_length)
  have "?t ! k \<in> set ?t" using assms len by simp
  then have "?t ! k \<in> set (zip [0..<length xs] xs)" by (simp add: shuffleArray_set)
  then have m: "fst (?t ! k) < length xs \<and> snd (?t ! k) = xs ! fst (?t ! k)"
    using in_enumerate [of "fst (?t ! k)" "snd (?t ! k)" xs] by simp
  have "map snd ?t = fst (shuffleArray e pos (map snd (zip [0..<length xs] xs)))"
    by (rule shuffleArray_map)
  then have "map snd ?t = fst (shuffleArray e pos xs)" by simp
  then have "fst (shuffleArray e pos xs) ! k = snd (?t ! k)"
    using assms len by (metis nth_map)
  moreover have "shuffledPositions e pos xs ! k = fst (?t ! k)"
    using assms len by (simp add: shuffledPositions_def)
  ultimately show ?thesis using m by simp
qed

lemma indexOf_first: "j < nat (indexOf xs x) \<Longrightarrow> xs ! j \<noteq> x"
proof (induction xs arbitrary: j)
  case Nil
  then show ?case by simp
next
  case (Cons y ys)
  show ?case
  proof (cases "y = x")
    case True
    with Cons.prems show ?thesis by simp
  next
    case False
    show ?thesis
    proof (cases j)
      case 0
      with False show ?thesis by simp
    next
      case (Suc j')
      with Cons.prems False have "j' < nat (indexOf ys x)"
        by (simp add: Let_def split: if_splits)
      from Cons.IH [OF this] Suc show ?thesis by simp
    qed
  qed
qed

lemma shuffleQuestionOptions_nth:
  "k < length qs \<Longrightarrow>
     \<exists>p. fst (shuffleQuestionOptions e pos qs) ! k = fst (shuffleOptionsOf e p (qs ! k))"
proof (induction qs arbitrary: pos k)
  case Nil
  then show ?case by simp
next
  case (Cons q qs)
  show ?case
  proof (cases k)
    case 0
    then show ?thesis by (auto simp: Let_def case_prod_beta)
  next
    case (Suc k')
    with Cons.prems have "k' < length qs" by simp
    from Cons.IH [OF this, of "snd (shuffleOptionsOf e pos q)"] Suc show ?thesis
      by (simp add: Let_def case_prod_beta)
  qed
qed

lemma shuffleOptionsOf_first_match:
  fixes e :: env and p :: nat and obj :: qobj
  assumes "0 \<le> correct (snd obj)" and "correct (snd obj) < int (length (options (snd obj)))"
  defines "q' \<equiv> snd (fst (shuffleOptionsOf e p obj))"
  shows "options q' = fst (shuffleArray e p (options (snd obj)))"
    and "correct q' = indexOf (options q') (options (snd obj) ! nat (correct (snd obj)))"
    and "distinct (options (snd obj)) \<Longrightarrow>
           shuffledPositions e p (options (snd obj)) ! nat (correct q') = nat (correct (snd obj))"
proof -
  let ?os = "options (snd obj)"
  let ?c = "nat (correct (snd obj))"
  let ?sh = "fst (shuffleArray e p ?os)"
  from elemAt_valid [OF assms(1,2)]
  have at: "elemAt ?os (correct (snd obj)) = Some (?os ! ?c)" by simp
  show o': "options q' = ?sh"
    by (simp add: q'_def shuffleOptionsOf_def Let_def case_prod_beta)
  show c': "correct q' = indexOf (options q') (?os ! ?c)"
    using at by (simp add: q'_def shuffleOptionsOf_def Let_def case_prod_beta)
  show "shuffledPositions e p ?os ! nat (correct q') = ?c" if d: "distinct ?os"
  proof -
    from shuffleOptionsOf_correct [OF assms(1,2), of e p]
    have v: "nat (correct q') < length ?os" and t: "?sh ! nat (correct q') = ?os ! ?c"
      unfolding q'_def [symmetric] o' by (simp_all add: shuffleArray_length nat_less_iff)
    from shuffleArray_nth [OF v, of e p]
    have "shuffledPositions e p ?os ! nat (correct q') < length ?os"
      and "?sh ! nat (correct q') = ?os ! (shuffledPositions e p ?os ! nat (correct q'))"
      by simp_all
    with t d assms(1,2) show ?thesis by (simp add: nth_eq_iff_index_eq)
  qed
qed

text \<open>
  C2 (as the code has it). For every question with a valid correct index,
  \<open>shuffleQuestionOptions\<close> shuffles the options and sets the new correct index to
  \<open>indexOf\<close> of the originally correct text: the first position of the shuffled options
  whose text equals it. When the option texts are pairwise distinct this is the position
  to which the originally correct option was moved by the permutation.
\<close>

theorem shuffleQuestionOptions_first_match:
  assumes "k < length qs"
    and "0 \<le> correct (snd (qs ! k))"
    and "correct (snd (qs ! k)) < int (length (options (snd (qs ! k))))"
  shows "\<exists>p. options (snd (fst (shuffleQuestionOptions e pos qs) ! k))
               = fst (shuffleArray e p (options (snd (qs ! k))))
           \<and> 0 \<le> correct (snd (fst (shuffleQuestionOptions e pos qs) ! k))
           \<and> nat (correct (snd (fst (shuffleQuestionOptions e pos qs) ! k)))
               < length (options (snd (fst (shuffleQuestionOptions e pos qs) ! k)))
           \<and> options (snd (fst (shuffleQuestionOptions e pos qs) ! k))
                 ! nat (correct (snd (fst (shuffleQuestionOptions e pos qs) ! k)))
               = options (snd (qs ! k)) ! nat (correct (snd (qs ! k)))
           \<and> (\<forall>j < nat (correct (snd (fst (shuffleQuestionOptions e pos qs) ! k))).
                 options (snd (fst (shuffleQuestionOptions e pos qs) ! k)) ! j
                   \<noteq> options (snd (qs ! k)) ! nat (correct (snd (qs ! k))))
           \<and> (distinct (options (snd (qs ! k))) \<longrightarrow>
                 shuffledPositions e p (options (snd (qs ! k)))
                     ! nat (correct (snd (fst (shuffleQuestionOptions e pos qs) ! k)))
                   = nat (correct (snd (qs ! k))))"
proof -
  from shuffleQuestionOptions_nth [OF assms(1), of e pos] obtain p where
    p: "fst (shuffleQuestionOptions e pos qs) ! k = fst (shuffleOptionsOf e p (qs ! k))"
    by blast
  let ?q' = "snd (fst (shuffleOptionsOf e p (qs ! k)))"
  let ?a = "options (snd (qs ! k)) ! nat (correct (snd (qs ! k)))"
  note fm = shuffleOptionsOf_first_match [OF assms(2,3), of e p]
  from shuffleOptionsOf_correct [OF assms(2,3), of e p]
  have v: "0 \<le> correct ?q'" "nat (correct ?q') < length (options ?q')"
    "options ?q' ! nat (correct ?q') = ?a"
    by (simp_all add: nat_less_iff)
  have first: "\<forall>j < nat (correct ?q'). options ?q' ! j \<noteq> ?a"
    unfolding fm(2) by (simp add: indexOf_first)
  show ?thesis
    unfolding p using fm(1) fm(3) v first by (intro exI [of _ p]) simp
qed

theorem shuffleQuestionOptions_first_match_witness:
  "0 < length [(0 :: nat, pickBQuestion)]
   \<and> 0 \<le> correct (snd ([(0 :: nat, pickBQuestion)] ! 0))
   \<and> correct (snd ([(0 :: nat, pickBQuestion)] ! 0))
       < int (length (options (snd ([(0 :: nat, pickBQuestion)] ! 0))))
   \<and> distinct (options (snd ([(0 :: nat, pickBQuestion)] ! 0)))
   \<and> (\<exists>p. shuffledPositions zeroEnv p (options (snd ([(0 :: nat, pickBQuestion)] ! 0)))
              ! nat (correct (snd (fst (shuffleQuestionOptions zeroEnv 0 [(0, pickBQuestion)]) ! 0)))
            = nat (correct (snd ([(0 :: nat, pickBQuestion)] ! 0))))"
proof -
  have h1: "0 < length [(0 :: nat, pickBQuestion)]" by simp
  have h2: "0 \<le> correct (snd ([(0 :: nat, pickBQuestion)] ! 0))"
    by (simp add: pickBQuestion_def entry_def)
  have h3: "correct (snd ([(0 :: nat, pickBQuestion)] ! 0))
       < int (length (options (snd ([(0 :: nat, pickBQuestion)] ! 0))))"
    by (simp add: pickBQuestion_def entry_def)
  have h4: "distinct (options (snd ([(0 :: nat, pickBQuestion)] ! 0)))"
    by (simp add: pickBQuestion_def entry_def)
  from shuffleQuestionOptions_first_match [OF h1 h2 h3, of zeroEnv 0] obtain p where
    "distinct (options (snd ([(0 :: nat, pickBQuestion)] ! 0))) \<longrightarrow>
       shuffledPositions zeroEnv p (options (snd ([(0 :: nat, pickBQuestion)] ! 0)))
           ! nat (correct (snd (fst (shuffleQuestionOptions zeroEnv 0 [(0, pickBQuestion)]) ! 0)))
         = nat (correct (snd ([(0 :: nat, pickBQuestion)] ! 0)))"
    by blast
  with h4 have "\<exists>p. shuffledPositions zeroEnv p (options (snd ([(0 :: nat, pickBQuestion)] ! 0)))
              ! nat (correct (snd (fst (shuffleQuestionOptions zeroEnv 0 [(0, pickBQuestion)]) ! 0)))
            = nat (correct (snd ([(0 :: nat, pickBQuestion)] ! 0)))"
    by blast
  with h1 h2 h3 h4 show ?thesis by (intro conjI)
qed

subsection \<open>Concrete inputs of the option shuffle and of the tier phase\<close>

text \<open>
  C2, as the specification words it, fails. On the draws of \<open>zeroEnv\<close> the shuffle
  moves position 0 to position 3. The question \<open>twinQuestion\<close> has the text \<open>A\<close> at
  positions 0 and 1 and position 0 is correct; after the shuffle the originally correct
  option is at position 3, but the new correct index is 0, the first position whose text
  is \<open>A\<close> (the option that was at position 1).
\<close>

theorem shuffleQuestionOptions_value_lookup:
  "correct twinQuestion = 0
   \<and> options twinQuestion = [''A'', ''A'', ''B'', ''C'']
   \<and> fst (shuffleArray zeroEnv 0 [0, 1, 2, 3 :: nat]) = [1, 2, 3, 0]
   \<and> fst (shuffleQuestionOptions zeroEnv 0 [(0, twinQuestion)])
       = [(0, twinQuestion\<lparr>options := [''A'', ''B'', ''C'', ''A''], correct := 0,
                            originalOrder := Some False\<rparr>)]"
  by code_simp

text \<open>
  C4. For \<open>count = 1\<close> both ceilings are 1 and \<open>hardCount\<close> is \<open>-1\<close>; it is not clamped,
  and \<open>slice(0, Math.min(-1, length))\<close> takes all hard candidates but the last. On the
  fresh database the realm \<open>movies\<close> has two hard questions (positions 7 and 8): one of
  them is taken in the tier-targeted phase, where the claim has none, and a call that
  returns one question puts three identities on cooldown.
\<close>

theorem tierPhase_negative_hard_target:
  "(easyCount 1 = 1 \<and> mediumCount 1 = 1 \<and> hardCount 1 = - 1 \<and> 1 \<le> 2 * ceil04 1)
   \<and> map fst (snd (snd (fst (tierPhase zeroEnv 0
        (availableOf getInstance (realmQuestionsOf getInstance ''movies'')) 1)))) = [8]
   \<and> (map fst (fst (getBalancedQuestionMix zeroEnv getInstance 0
                (objects (realmQuestionsOf getInstance ''movies'')) 1)) = [1]
      \<and> length (cooldownSetOf (fst (snd (getBalancedQuestionMix zeroEnv getInstance 0
                (objects (realmQuestionsOf getInstance ''movies'')) 1))) ''movies'') = 3)"
proof (intro conjI)
  show "easyCount 1 = 1" "mediumCount 1 = 1" "hardCount 1 = - 1" "1 \<le> 2 * ceil04 1"
    by (simp_all add: easyCount_def mediumCount_def hardCount_def ceil04_eq)
  show "map fst (snd (snd (fst (tierPhase zeroEnv 0
        (availableOf getInstance (realmQuestionsOf getInstance ''movies'')) 1)))) = [8]"
    by code_simp
  show "map fst (fst (getBalancedQuestionMix zeroEnv getInstance 0
                (objects (realmQuestionsOf getInstance ''movies'')) 1)) = [1]"
    by code_simp
  show "length (cooldownSetOf (fst (snd (getBalancedQuestionMix zeroEnv getInstance 0
                (objects (realmQuestionsOf getInstance ''movies'')) 1))) ''movies'') = 3"
    by code_simp
qed

end
